theory Spec2Isabelle
  imports Complex_Main "HOL-Library.Word" "HOL-Library.AList"
begin

section \<open>Cardiac multi-atlas segmentation service: geometry\<close>

text \<open>
  The embedding follows \<^verbatim>\<open>segmentation/cardiac/service.py\<close>, function
  \<^verbatim>\<open>cardiac_service\<close>. Python integers are unbounded, so voxel indices and
  sizes that take part in Python arithmetic are \<^typ>\<open>int\<close>.
\<close>

subsection \<open>Settings\<close>

text \<open>
  The three expansion entries of \<^verbatim>\<open>settings["lungMaskSettings"]\<close>. The threshold
  entries of the same dictionary are only handed to the lung detector.
\<close>

record lungMaskSettings =
  coronalExpansion :: int
  axialExpansion :: int
  sagittalExpansion :: int

text \<open>The values of \<^verbatim>\<open>CARDIAC_SETTINGS_DEFAULTS["lungMaskSettings"]\<close>.\<close>

definition default_lungMaskSettings :: lungMaskSettings where
  "default_lungMaskSettings =
     \<lparr>coronalExpansion = 15, axialExpansion = 5, sagittalExpansion = 0\<rparr>"

subsection \<open>Step 1: the crop box\<close>

text \<open>
  A box is the six-tuple \<^verbatim>\<open>(sag0, cor0, ax0, sag_d, cor_d, ax_d)\<close>: origin index and
  size on the sagittal, coronal and axial axes. \<^verbatim>\<open>lung_bounding_box\<close> is read by the
  same six positions.
\<close>

type_synonym box = "int \<times> int \<times> int \<times> int \<times> int \<times> int"

text \<open>
  Lines 180-188:
  \<^verbatim>\<open>
  sag0 = max([lung_bounding_box[0] - sagittal_expansion, 0])
  cor0 = max([lung_bounding_box[1] - coronal_expansion, 0])
  ax0 = max([lung_bounding_box[2] - axial_expansion, 0])
  sag_d = min([lung_bounding_box[3] + sagittal_expansion, img.GetSize()[0] - sag0])
  cor_d = min([lung_bounding_box[4] + coronal_expansion, img.GetSize()[1] - cor0])
  ax_d = min([lung_bounding_box[5] + axial_expansion, img.GetSize()[2] - ax0])
  crop_box = (sag0, cor0, ax0, sag_d, cor_d, ax_d)
  \<close>
  \<open>img_size\<close> is \<^verbatim>\<open>img.GetSize()\<close>.
\<close>

definition crop_box :: "box \<Rightarrow> lungMaskSettings \<Rightarrow> nat \<times> nat \<times> nat \<Rightarrow> box" where
  "crop_box lung_bounding_box settings img_size =
     (case lung_bounding_box of (b0, b1, b2, b3, b4, b5) \<Rightarrow>
      case img_size of (size0, size1, size2) \<Rightarrow>
        let sagittal_expansion = sagittalExpansion settings;
            coronal_expansion = coronalExpansion settings;
            axial_expansion = axialExpansion settings;
            sag0 = max (b0 - sagittal_expansion) 0;
            cor0 = max (b1 - coronal_expansion) 0;
            ax0 = max (b2 - axial_expansion) 0;
            sag_d = min (b3 + sagittal_expansion) (int size0 - sag0);
            cor_d = min (b4 + coronal_expansion) (int size1 - cor0);
            ax_d = min (b5 + axial_expansion) (int size2 - ax0)
        in (sag0, cor0, ax0, sag_d, cor_d, ax_d))"

section \<open>Volumes\<close>

text \<open>
  A \<^verbatim>\<open>sitk.Image\<close>: its size \<^verbatim>\<open>GetSize()\<close>, its voxels, and its physical
  geometry (origin, spacing, direction), which the pipeline only carries along, as a
  value of a type parameter. \<open>voxels img ! x ! y ! z\<close> is the voxel at index
  \<open>(x, y, z)\<close>, sagittal axis first, as in \<^verbatim>\<open>GetSize()\<close> and in the crop box.
\<close>

record ('g, 'a) Image =
  geometry :: 'g
  GetSize :: "nat \<times> nat \<times> nat"
  voxels :: "'a list list list"

text \<open>The voxel lists have the lengths that \<open>GetSize\<close> gives.\<close>

definition well_formed :: "('g, 'a) Image \<Rightarrow> bool" where
  "well_formed img =
     (case GetSize img of (size0, size1, size2) \<Rightarrow>
        length (voxels img) = size0 \<and>
        list_all (\<lambda>plane. length plane = size1 \<and>
                    list_all (\<lambda>row. length row = size2) plane) (voxels img))"

text \<open>Reading a voxel; \<open>None\<close> stands for the exception on an index outside the volume.\<close>

definition GetPixel :: "('g, 'a) Image \<Rightarrow> nat \<times> nat \<times> nat \<Rightarrow> 'a option" where
  "GetPixel img idx =
     (case idx of (x, y, z) \<Rightarrow> case GetSize img of (size0, size1, size2) \<Rightarrow>
        if x < size0 \<and> y < size1 \<and> z < size2 then Some (voxels img ! x ! y ! z) else None)"

text \<open>A voxel-wise operation (\<^verbatim>\<open>img * 0\<close>, \<^verbatim>\<open>sitk.Cast\<close>): same grid, new voxel values.\<close>

definition map_image :: "('a \<Rightarrow> 'b) \<Rightarrow> ('g, 'a) Image \<Rightarrow> ('g, 'b) Image" where
  "map_image f img =
     \<lparr>geometry = geometry img, GetSize = GetSize img,
      voxels = map (map (map f)) (voxels img)\<rparr>"

subsection \<open>Index-space copy and slice\<close>

text \<open>
  Modelled from the spec: \<^verbatim>\<open>sitk.Paste\<close> is SimpleITK library code, absent from the
  sources. The spec (sections 4.7 and 6, \<^verbatim>\<open>pasteIntoTemplate(template, patch, offset)\<close>)
  describes it as a pure index-space copy on the same voxel grid with no resampling.
  \<open>paste_line\<close> is the copy along one axis: destination position \<open>i\<close> takes
  source position \<open>i - off\<close> where the source covers it and is kept elsewhere;
  source positions that fall outside the destination are dropped. \<open>f\<close> combines
  a source element with the destination element it lands on, so that the copy nests
  over the three axes.
\<close>

definition paste_line :: "('a \<Rightarrow> 'a \<Rightarrow> 'a) \<Rightarrow> int \<Rightarrow> 'a list \<Rightarrow> 'a list \<Rightarrow> 'a list" where
  "paste_line f off src dst =
     map (\<lambda>i. if off \<le> int i \<and> int i < off + int (length src)
               then f (src ! nat (int i - off)) (dst ! i) else dst ! i)
       [0..<length dst]"

text \<open>
  Modelled from the spec: the slice \<open>[off, off + n)\<close> of one axis, as far as it lies
  inside the list (spec section 6, \<^verbatim>\<open>cropVolume(volume, box)\<close>: a pure index-space slice).
\<close>

definition slice_line :: "int \<Rightarrow> int \<Rightarrow> 'a list \<Rightarrow> 'a list" where
  "slice_line off n xs = drop (nat off) (take (nat (off + n)) xs)"

definition slice_voxels :: "int \<times> int \<times> int \<Rightarrow> int \<times> int \<times> int \<Rightarrow> 'a list list list \<Rightarrow> 'a list list list" where
  "slice_voxels idx sz v =
     (case idx of (i0, i1, i2) \<Rightarrow> case sz of (n0, n1, n2) \<Rightarrow>
        map (\<lambda>plane. map (slice_line i2 n2) (slice_line i1 n1 plane)) (slice_line i0 n0 v))"

definition paste_voxels :: "int \<times> int \<times> int \<Rightarrow> 'a list list list \<Rightarrow> 'a list list list \<Rightarrow> 'a list list list" where
  "paste_voxels idx src dst =
     (case idx of (i0, i1, i2) \<Rightarrow>
        paste_line (paste_line (paste_line (\<lambda>s d. s) i2) i1) i0 src dst)"

text \<open>
  Modelled from the spec: \<^verbatim>\<open>sitk.Paste(destinationImage, sourceImage, sourceSize,
  sourceIndex, destinationIndex)\<close>. The result is a new volume on the destination's grid
  (size and geometry of the destination); the source region
  \<open>[sourceIndex, sourceIndex + sourceSize)\<close> is copied to \<open>destinationIndex\<close>.
\<close>

definition Paste :: "('g, 'a) Image \<Rightarrow> ('h, 'a) Image \<Rightarrow> nat \<times> nat \<times> nat \<Rightarrow> int \<times> int \<times> int
    \<Rightarrow> int \<times> int \<times> int \<Rightarrow> ('g, 'a) Image" where
  "Paste destinationImage sourceImage sourceSize sourceIndex destinationIndex =
     (case sourceSize of (n0, n1, n2) \<Rightarrow>
      \<lparr>geometry = geometry destinationImage, GetSize = GetSize destinationImage,
       voxels = paste_voxels destinationIndex
                 (slice_voxels sourceIndex (int n0, int n1, int n2) (voxels sourceImage))
                 (voxels destinationImage)\<rparr>)"

text \<open>The number of positions of \<open>[off, off + n)\<close> inside a list of length \<open>len\<close>.\<close>

definition slice_length :: "int \<Rightarrow> int \<Rightarrow> nat \<Rightarrow> nat" where
  "slice_length off n len = min (nat (off + n)) len - nat off"

text \<open>
  Modelled from the spec: \<^verbatim>\<open>CropImage(image, cropBox)\<close> of the module
  \<^verbatim>\<open>segmentation/cardiac/cardiac.py\<close>, absent from the sources. The spec (sections 4.1
  and 6, \<^verbatim>\<open>cropVolume(volume, box)\<close>) gives it as a pure index-space slice with no
  interpolation. \<open>slice_geometry\<close> says how the physical geometry follows the slice,
  which the spec leaves open.
\<close>

definition CropImage :: "(box \<Rightarrow> 'g \<Rightarrow> 'g) \<Rightarrow> ('g, 'a) Image \<Rightarrow> box \<Rightarrow> ('g, 'a) Image" where
  "CropImage slice_geometry img cropBox =
     (case cropBox of (i0, i1, i2, n0, n1, n2) \<Rightarrow>
      case GetSize img of (size0, size1, size2) \<Rightarrow>
      \<lparr>geometry = slice_geometry cropBox (geometry img),
       GetSize = (slice_length i0 n0 size0, slice_length i1 n1 size1, slice_length i2 n2 size2),
       voxels = slice_voxels (i0, i1, i2) (n0, n1, n2) (voxels img)\<rparr>)"

subsection \<open>Step 6: pasting a mask into the original image space\<close>

text \<open>
  Line 342: \<^verbatim>\<open>template_im = sitk.Cast((img * 0), sitk.sitkUInt8)\<close>. The target's voxels
  are integers; the cast to an unsigned 8-bit voxel keeps the value modulo 256.
\<close>

definition Cast_UInt8 :: "('g, int) Image \<Rightarrow> ('g, 8 word) Image" where
  "Cast_UInt8 img = map_image word_of_int img"

definition template_im :: "('g, int) Image \<Rightarrow> ('g, 8 word) Image" where
  "template_im img = Cast_UInt8 (map_image (\<lambda>v. v * 0) img)"

text \<open>
  Lines 351-353 and 365-367:
  \<^verbatim>\<open>paste_img = sitk.Paste(template_im, binary_struct, binary_struct.GetSize(),
                         (0, 0, 0), (sag0, cor0, ax0))\<close>
\<close>

definition paste_img :: "('g, 8 word) Image \<Rightarrow> ('h, 8 word) Image \<Rightarrow> box \<Rightarrow> ('g, 8 word) Image" where
  "paste_img template binary_struct crop =
     (case crop of (sag0, cor0, ax0, sag_d, cor_d, ax_d) \<Rightarrow>
        Paste template binary_struct (GetSize binary_struct) (0, 0, 0) (sag0, cor0, ax0))"

text \<open>A small target, a mask in its cropped space and margin settings, for evaluation.\<close>

definition example_img :: "(unit, int) Image" where
  "example_img =
     \<lparr>geometry = (), GetSize = (3, 1, 2), voxels = [[[5, 6]], [[7, 8]], [[9, 10]]]\<rparr>"

definition example_mask :: "(unit, 8 word) Image" where
  "example_mask = \<lparr>geometry = (), GetSize = (1, 1, 2), voxels = [[[1, 0]]]\<rparr>"

definition example_settings :: lungMaskSettings where
  "example_settings = \<lparr>coronalExpansion = 0, axialExpansion = 1, sagittalExpansion = 0\<rparr>"

section \<open>Label fusion threshold\<close>

text \<open>
  Modelled from the spec: \<^verbatim>\<open>process_probability_image(probability_image, threshold)\<close> of
  the package \<^verbatim>\<open>segmentation/atlas/label.py\<close>, absent from the sources. The spec (section
  4.5) says: threshold the probability volume at a per-structure configured cutoff in
  [0,1] to produce a binary mask. A voxel is foreground (1) when its probability
  reaches the cutoff and background (0) otherwise. Probabilities are real numbers
  here; the comparison is the only operation on them.
\<close>

definition process_probability_image :: "('g, real) Image \<Rightarrow> real \<Rightarrow> ('g, 8 word) Image" where
  "process_probability_image probability_image threshold =
     map_image (\<lambda>p. if threshold \<le> p then 1 else 0) probability_image"

text \<open>The number of foreground voxels of a mask.\<close>

definition voxel_count :: "('g, 8 word) Image \<Rightarrow> nat" where
  "voxel_count binary_struct =
     length (filter (\<lambda>v. v \<noteq> 0) (concat (concat (voxels binary_struct))))"

definition example_probability :: "(unit, real) Image" where
  "example_probability =
     \<lparr>geometry = (), GetSize = (1, 2, 2), voxels = [[[0.2, 0.5], [0.9, 0.44]]]\<rparr>"

section \<open>Iterative atlas removal\<close>

text \<open>
  The atlas set is a Python dictionary from atlas identifier to atlas record, an
  ordered mapping: a list of pairs with one pair per identifier.

  Modelled from the spec: \<^verbatim>\<open>IAR\<close> of the package
  \<^verbatim>\<open>segmentation/atlas/iterative_atlas_removal.py\<close>, absent from the sources. The spec
  (section 4.4) gives one iteration as: (a)-(d) score every atlas still in the set and
  find the atlases whose score falls outside the outlier bound; (e) if at least one
  atlas is flagged and the set size after removal would not drop below the minimum
  floor, remove the flagged atlases (each with its entire record) and repeat;
  (f) terminate when no atlas is flagged, or the minimum floor would be violated, or the
  iteration cap is reached. Steps (a)-(d) depend on the reference structure, the
  statistic kind, the fencing method and its factor, and on the distance maps; they
  are the parameter \<open>outliers\<close>, any function from the current atlas set to the
  identifiers it flags. The second argument is the minimum floor, the third the number
  of iterations left under the cap.
\<close>

fun IAR :: "((string \<times> 'r) list \<Rightarrow> string list) \<Rightarrow> nat \<Rightarrow> nat \<Rightarrow> (string \<times> 'r) list
    \<Rightarrow> (string \<times> 'r) list" where
  "IAR outliers min_best_atlases 0 atlas_set = atlas_set"
| "IAR outliers min_best_atlases (Suc iterations_left) atlas_set =
     (let flagged = outliers atlas_set;
          remaining = filter (\<lambda>(atlas_id, record). atlas_id \<notin> set flagged) atlas_set
      in if flagged = [] then atlas_set
         else if length remaining < min_best_atlases then atlas_set
         else IAR outliers min_best_atlases iterations_left remaining)"

section \<open>Atlas store and registration stages\<close>

text \<open>
  Exceptions are values: \<open>KeyError\<close> is Python's, raised by a dictionary lookup of a
  missing key; \<open>Failure\<close> is any exception a collaborator (image reading, registration,
  label propagation) raises, with its message. \<^verbatim>\<open>cardiac_service\<close> has no
  \<^verbatim>\<open>try\<close> statement, so an exception ends the call.
\<close>

datatype error = KeyError string | Failure string

text \<open>
  The atlas set of the docstring (lines 116-128): atlas id, then stage
  (\<^verbatim>\<open>'Original'\<close>, \<^verbatim>\<open>'RIR'\<close>, \<^verbatim>\<open>'DIR'\<close>), then entry (\<^verbatim>\<open>'CT Image'\<close>,
  \<^verbatim>\<open>'Transform'\<close>, \<^verbatim>\<open>'Weight Map'\<close>, a structure name). A Python dictionary is an
  ordered mapping: a list of pairs, read with \<open>map_of\<close> and written with
  \<open>AList.update\<close>, which overwrites the entry of a key in place or appends a new one.
  Entries (images, transforms) are values of a type parameter.
\<close>

type_synonym 'v stage_dict = "(string \<times> 'v) list"
type_synonym 'v atlas_record = "(string \<times> 'v stage_dict) list"
type_synonym 'v atlas_set = "(string \<times> 'v atlas_record) list"

text \<open>\<^verbatim>\<open>atlas_set[atlas_id][stage][key]\<close>\<close>

definition getitem3 :: "'v atlas_set \<Rightarrow> string \<Rightarrow> string \<Rightarrow> string \<Rightarrow> error + 'v" where
  "getitem3 atlas_set atlas_id stage key =
     (case map_of atlas_set atlas_id of None \<Rightarrow> Inl (KeyError atlas_id)
      | Some record \<Rightarrow>
     (case map_of record stage of None \<Rightarrow> Inl (KeyError stage)
      | Some entries \<Rightarrow>
     (case map_of entries key of None \<Rightarrow> Inl (KeyError key)
      | Some v \<Rightarrow> Inr v)))"

text \<open>\<^verbatim>\<open>atlas_set[atlas_id][stage] = entries\<close>\<close>

definition setitem2 :: "'v atlas_set \<Rightarrow> string \<Rightarrow> string \<Rightarrow> 'v stage_dict \<Rightarrow> error + 'v atlas_set" where
  "setitem2 atlas_set atlas_id stage entries =
     (case map_of atlas_set atlas_id of None \<Rightarrow> Inl (KeyError atlas_id)
      | Some record \<Rightarrow>
          Inr (AList.update atlas_id (AList.update stage entries record) atlas_set))"

text \<open>\<^verbatim>\<open>atlas_set[atlas_id][stage][key] = v\<close>\<close>

definition setitem3 :: "'v atlas_set \<Rightarrow> string \<Rightarrow> string \<Rightarrow> string \<Rightarrow> 'v \<Rightarrow> error + 'v atlas_set" where
  "setitem3 atlas_set atlas_id stage key v =
     (case map_of atlas_set atlas_id of None \<Rightarrow> Inl (KeyError atlas_id)
      | Some record \<Rightarrow>
     (case map_of record stage of None \<Rightarrow> Inl (KeyError stage)
      | Some entries \<Rightarrow>
          Inr (AList.update atlas_id
                 (AList.update stage (AList.update key v entries) record) atlas_set)))"

text \<open>
  The collaborators, with the arguments that vary from call to call; the settings
  handed through (\<^verbatim>\<open>options\<close>, \<^verbatim>\<open>trace\<close>, \<^verbatim>\<open>reg_method\<close>, the staging lists,
  \<^verbatim>\<open>ncores\<close>, \<^verbatim>\<open>structure=True\<close>, \<^verbatim>\<open>interp\<close>) are fixed during a run and part of the
  function. A collaborator returns its result or raises.
  \<^item> \<^verbatim>\<open>sitk.ReadImage(path)\<close>
  \<^item> \<^verbatim>\<open>initial_registration(img_crop, atlas_image, moving_structure=atlas_struct, ...)\<close>
    returns \<^verbatim>\<open>(rigid_image, initial_tfm)\<close>; \<^verbatim>\<open>moving_structure\<close> is \<^verbatim>\<open>False\<close>
    (\<open>None\<close>) or a structure
  \<^item> \<^verbatim>\<open>transform_propagation(img_crop, input_struct, initial_tfm, ...)\<close>
  \<^item> \<^verbatim>\<open>fast_symmetric_forces_demons_registration(img_crop, atlas_image, ...)\<close> returns
    \<^verbatim>\<open>(deform_image, deform_field)\<close>
  \<^item> \<^verbatim>\<open>apply_field(input_struct, deform_field, ...)\<close>
\<close>

record 'v collaborators =
  ReadImage :: "string \<Rightarrow> error + 'v"
  initial_registration :: "'v \<Rightarrow> 'v \<Rightarrow> 'v option \<Rightarrow> error + 'v \<times> 'v"
  transform_propagation :: "'v \<Rightarrow> 'v \<Rightarrow> 'v \<Rightarrow> error + 'v"
  fast_symmetric_forces_demons_registration :: "'v \<Rightarrow> 'v \<Rightarrow> error + 'v \<times> 'v"
  apply_field :: "'v \<Rightarrow> 'v \<Rightarrow> error + 'v"

subsection \<open>Initialisation: reading the atlases (lines 139-153)\<close>

text \<open>
  \<^verbatim>\<open>"{0}/Case_{1}/Images/Case_{1}_CROP.nii.gz".format(atlas_path, atlas_id)\<close> and
  \<^verbatim>\<open>"{0}/Case_{1}/Structures/Case_{1}_{2}_CROP.nii.gz".format(atlas_path, atlas_id, struct)\<close>
\<close>

definition image_path :: "string \<Rightarrow> string \<Rightarrow> string" where
  "image_path atlas_path atlas_id =
     atlas_path @ ''/Case_'' @ atlas_id @ ''/Images/Case_'' @ atlas_id @ ''_CROP.nii.gz''"

definition structure_path :: "string \<Rightarrow> string \<Rightarrow> string \<Rightarrow> string" where
  "structure_path atlas_path atlas_id struct =
     atlas_path @ ''/Case_'' @ atlas_id @ ''/Structures/Case_'' @ atlas_id @ ''_'' @ struct
       @ ''_CROP.nii.gz''"

text \<open>
  \<^verbatim>\<open>
  for struct in atlas_structures:
      atlas_set[atlas_id]["Original"][struct] = sitk.ReadImage(...)
  \<close>
  The right-hand side of an assignment is evaluated before its target.
\<close>

fun read_structures :: "'v collaborators \<Rightarrow> string \<Rightarrow> string \<Rightarrow> string list \<Rightarrow> 'v atlas_set
    \<Rightarrow> error + 'v atlas_set" where
  "read_structures c atlas_path atlas_id [] atlas_set = Inr atlas_set"
| "read_structures c atlas_path atlas_id (struct # rest) atlas_set =
     (case ReadImage c (structure_path atlas_path atlas_id struct) of Inl e \<Rightarrow> Inl e
      | Inr structure_image \<Rightarrow>
     (case setitem3 atlas_set atlas_id ''Original'' struct structure_image of Inl e \<Rightarrow> Inl e
      | Inr atlas_set' \<Rightarrow> read_structures c atlas_path atlas_id rest atlas_set'))"

text \<open>
  \<^verbatim>\<open>
  for atlas_id in atlas_id_list:
      atlas_set[atlas_id] = {}
      atlas_set[atlas_id]["Original"] = {}
      atlas_set[atlas_id]["Original"]["CT Image"] = sitk.ReadImage(...)
      for struct in atlas_structures: ...
  \<close>
\<close>

fun read_atlases :: "'v collaborators \<Rightarrow> string \<Rightarrow> string list \<Rightarrow> string list \<Rightarrow> 'v atlas_set
    \<Rightarrow> error + 'v atlas_set" where
  "read_atlases c atlas_path atlas_structures [] atlas_set = Inr atlas_set"
| "read_atlases c atlas_path atlas_structures (atlas_id # rest) atlas_set =
     (case setitem2 (AList.update atlas_id [] atlas_set) atlas_id ''Original'' [] of
        Inl e \<Rightarrow> Inl e
      | Inr atlas_set1 \<Rightarrow>
     (case ReadImage c (image_path atlas_path atlas_id) of Inl e \<Rightarrow> Inl e
      | Inr ct_image \<Rightarrow>
     (case setitem3 atlas_set1 atlas_id ''Original'' ''CT Image'' ct_image of Inl e \<Rightarrow> Inl e
      | Inr atlas_set2 \<Rightarrow>
     (case read_structures c atlas_path atlas_id atlas_structures atlas_set2 of
        Inl e \<Rightarrow> Inl e
      | Inr atlas_set3 \<Rightarrow> read_atlases c atlas_path atlas_structures rest atlas_set3))))"

subsection \<open>Step 2: rigid registration (lines 210-239)\<close>

text \<open>
  \<^verbatim>\<open>
  for struct in atlas_structures:
      input_struct = atlas_set[atlas_id]["Original"][struct]
      atlas_set[atlas_id]["RIR"][struct] = transform_propagation(
          img_crop, input_struct, initial_tfm, structure=True, interp=sitk.sitkLinear)
  \<close>
\<close>

fun rigid_structures :: "'v collaborators \<Rightarrow> 'v \<Rightarrow> 'v \<Rightarrow> string \<Rightarrow> string list \<Rightarrow> 'v atlas_set
    \<Rightarrow> error + 'v atlas_set" where
  "rigid_structures c img_crop initial_tfm atlas_id [] atlas_set = Inr atlas_set"
| "rigid_structures c img_crop initial_tfm atlas_id (struct # rest) atlas_set =
     (case getitem3 atlas_set atlas_id ''Original'' struct of Inl e \<Rightarrow> Inl e
      | Inr input_struct \<Rightarrow>
     (case transform_propagation c img_crop input_struct initial_tfm of Inl e \<Rightarrow> Inl e
      | Inr propagated \<Rightarrow>
     (case setitem3 atlas_set atlas_id ''RIR'' struct propagated of Inl e \<Rightarrow> Inl e
      | Inr atlas_set' \<Rightarrow> rigid_structures c img_crop initial_tfm atlas_id rest atlas_set')))"

text \<open>
  The body of the loop over \<^verbatim>\<open>atlas_id_list\<close>. \<open>guide_structure\<close> is
  \<^verbatim>\<open>settings["rigidSettings"]["guideStructure"]\<close>: \<open>None\<close> for \<^verbatim>\<open>False\<close>, or the name
  of a structure.
  \<^verbatim>\<open>
  atlas_set[atlas_id]["RIR"] = {}
  atlas_image = atlas_set[atlas_id]["Original"]["CT Image"]
  if guide_structure:
      atlas_struct = atlas_set[atlas_id]["Original"][guide_structure]
  else:
      atlas_struct = False
  rigid_image, initial_tfm = initial_registration(img_crop, atlas_image, ...)
  atlas_set[atlas_id]["RIR"]["CT Image"] = rigid_image
  atlas_set[atlas_id]["RIR"]["Transform"] = initial_tfm
  for struct in atlas_structures: ...
  \<close>
\<close>

definition moving_structure :: "'v atlas_set \<Rightarrow> string \<Rightarrow> string option \<Rightarrow> error + 'v option" where
  "moving_structure atlas_set atlas_id guide_structure =
     (case guide_structure of None \<Rightarrow> Inr None
      | Some name \<Rightarrow>
         (case getitem3 atlas_set atlas_id ''Original'' name of Inl e \<Rightarrow> Inl e
          | Inr atlas_struct \<Rightarrow> Inr (Some atlas_struct)))"

definition rigid_atlas :: "'v collaborators \<Rightarrow> 'v \<Rightarrow> string option \<Rightarrow> string list \<Rightarrow> string
    \<Rightarrow> 'v atlas_set \<Rightarrow> error + 'v atlas_set" where
  "rigid_atlas c img_crop guide_structure atlas_structures atlas_id atlas_set =
     (case setitem2 atlas_set atlas_id ''RIR'' [] of Inl e \<Rightarrow> Inl e
      | Inr atlas_set1 \<Rightarrow>
     (case getitem3 atlas_set1 atlas_id ''Original'' ''CT Image'' of Inl e \<Rightarrow> Inl e
      | Inr atlas_image \<Rightarrow>
     (case moving_structure atlas_set1 atlas_id guide_structure of Inl e \<Rightarrow> Inl e
      | Inr atlas_struct \<Rightarrow>
     (case initial_registration c img_crop atlas_image atlas_struct of Inl e \<Rightarrow> Inl e
      | Inr (rigid_image, initial_tfm) \<Rightarrow>
     (case setitem3 atlas_set1 atlas_id ''RIR'' ''CT Image'' rigid_image of Inl e \<Rightarrow> Inl e
      | Inr atlas_set2 \<Rightarrow>
     (case setitem3 atlas_set2 atlas_id ''RIR'' ''Transform'' initial_tfm of Inl e \<Rightarrow> Inl e
      | Inr atlas_set3 \<Rightarrow>
          rigid_structures c img_crop initial_tfm atlas_id atlas_structures atlas_set3))))))"

fun rigid_loop :: "'v collaborators \<Rightarrow> 'v \<Rightarrow> string option \<Rightarrow> string list \<Rightarrow> string list
    \<Rightarrow> 'v atlas_set \<Rightarrow> error + 'v atlas_set" where
  "rigid_loop c img_crop guide_structure atlas_structures [] atlas_set = Inr atlas_set"
| "rigid_loop c img_crop guide_structure atlas_structures (atlas_id # rest) atlas_set =
     (case rigid_atlas c img_crop guide_structure atlas_structures atlas_id atlas_set of
        Inl e \<Rightarrow> Inl e
      | Inr atlas_set' \<Rightarrow> rigid_loop c img_crop guide_structure atlas_structures rest atlas_set')"

subsection \<open>Step 3: deformable registration (lines 251-274)\<close>

text \<open>
  \<^verbatim>\<open>
  for struct in atlas_structures:
      input_struct = atlas_set[atlas_id]["RIR"][struct]
      atlas_set[atlas_id]["DIR"][struct] = apply_field(
          input_struct, deform_field, structure=True, interp=sitk.sitkLinear)
  \<close>
\<close>

fun deformable_structures :: "'v collaborators \<Rightarrow> 'v \<Rightarrow> string \<Rightarrow> string list \<Rightarrow> 'v atlas_set
    \<Rightarrow> error + 'v atlas_set" where
  "deformable_structures c deform_field atlas_id [] atlas_set = Inr atlas_set"
| "deformable_structures c deform_field atlas_id (struct # rest) atlas_set =
     (case getitem3 atlas_set atlas_id ''RIR'' struct of Inl e \<Rightarrow> Inl e
      | Inr input_struct \<Rightarrow>
     (case apply_field c input_struct deform_field of Inl e \<Rightarrow> Inl e
      | Inr deformed \<Rightarrow>
     (case setitem3 atlas_set atlas_id ''DIR'' struct deformed of Inl e \<Rightarrow> Inl e
      | Inr atlas_set' \<Rightarrow> deformable_structures c deform_field atlas_id rest atlas_set')))"

text \<open>
  \<^verbatim>\<open>
  atlas_set[atlas_id]["DIR"] = {}
  atlas_image = atlas_set[atlas_id]["RIR"]["CT Image"]
  deform_image, deform_field = fast_symmetric_forces_demons_registration(
      img_crop, atlas_image, ...)
  atlas_set[atlas_id]["DIR"]["CT Image"] = deform_image
  atlas_set[atlas_id]["DIR"]["Transform"] = deform_field
  for struct in atlas_structures: ...
  \<close>
\<close>

definition deformable_atlas :: "'v collaborators \<Rightarrow> 'v \<Rightarrow> string list \<Rightarrow> string
    \<Rightarrow> 'v atlas_set \<Rightarrow> error + 'v atlas_set" where
  "deformable_atlas c img_crop atlas_structures atlas_id atlas_set =
     (case setitem2 atlas_set atlas_id ''DIR'' [] of Inl e \<Rightarrow> Inl e
      | Inr atlas_set1 \<Rightarrow>
     (case getitem3 atlas_set1 atlas_id ''RIR'' ''CT Image'' of Inl e \<Rightarrow> Inl e
      | Inr atlas_image \<Rightarrow>
     (case fast_symmetric_forces_demons_registration c img_crop atlas_image of
        Inl e \<Rightarrow> Inl e
      | Inr (deform_image, deform_field) \<Rightarrow>
     (case setitem3 atlas_set1 atlas_id ''DIR'' ''CT Image'' deform_image of Inl e \<Rightarrow> Inl e
      | Inr atlas_set2 \<Rightarrow>
     (case setitem3 atlas_set2 atlas_id ''DIR'' ''Transform'' deform_field of Inl e \<Rightarrow> Inl e
      | Inr atlas_set3 \<Rightarrow>
          deformable_structures c deform_field atlas_id atlas_structures atlas_set3)))))"

fun deformable_loop :: "'v collaborators \<Rightarrow> 'v \<Rightarrow> string list \<Rightarrow> string list
    \<Rightarrow> 'v atlas_set \<Rightarrow> error + 'v atlas_set" where
  "deformable_loop c img_crop atlas_structures [] atlas_set = Inr atlas_set"
| "deformable_loop c img_crop atlas_structures (atlas_id # rest) atlas_set =
     (case deformable_atlas c img_crop atlas_structures atlas_id atlas_set of
        Inl e \<Rightarrow> Inl e
      | Inr atlas_set' \<Rightarrow> deformable_loop c img_crop atlas_structures rest atlas_set')"

text \<open>
  The three loops in sequence, from the empty atlas set of line 139. \<open>img_crop\<close>, the
  cropped target, comes from step 1, which does not touch the atlas set.
\<close>

definition register_atlases :: "'v collaborators \<Rightarrow> string \<Rightarrow> string list \<Rightarrow> string list \<Rightarrow> 'v
    \<Rightarrow> string option \<Rightarrow> error + 'v atlas_set" where
  "register_atlases c atlas_path atlas_id_list atlas_structures img_crop guide_structure =
     (case read_atlases c atlas_path atlas_structures atlas_id_list [] of Inl e \<Rightarrow> Inl e
      | Inr atlas_set1 \<Rightarrow>
     (case rigid_loop c img_crop guide_structure atlas_structures atlas_id_list atlas_set1 of
        Inl e \<Rightarrow> Inl e
      | Inr atlas_set2 \<Rightarrow>
          deformable_loop c img_crop atlas_structures atlas_id_list atlas_set2))"

subsection \<open>Loop schemes and predicates for the proofs\<close>

text \<open>
  Both structure loops read an entry of one stage, hand it to a collaborator and store
  the result under the same name in another stage; both atlas loops run a body for each
  atlas id and stop at the first exception. The loops above are instances of these two
  schemes (lemmas \<open>rigid_structures_scheme\<close>, \<open>deformable_structures_scheme\<close>,
  \<open>rigid_loop_scheme\<close>, \<open>deformable_loop_scheme\<close>).
\<close>

fun propagate_structures :: "('v \<Rightarrow> error + 'v) \<Rightarrow> string \<Rightarrow> string \<Rightarrow> string \<Rightarrow> string list
    \<Rightarrow> 'v atlas_set \<Rightarrow> error + 'v atlas_set" where
  "propagate_structures f src dst atlas_id [] atlas_set = Inr atlas_set"
| "propagate_structures f src dst atlas_id (struct # rest) atlas_set =
     (case getitem3 atlas_set atlas_id src struct of Inl e \<Rightarrow> Inl e
      | Inr input_struct \<Rightarrow>
     (case f input_struct of Inl e \<Rightarrow> Inl e
      | Inr output_struct \<Rightarrow>
     (case setitem3 atlas_set atlas_id dst struct output_struct of Inl e \<Rightarrow> Inl e
      | Inr atlas_set' \<Rightarrow> propagate_structures f src dst atlas_id rest atlas_set')))"

fun for_each :: "('a \<Rightarrow> 's \<Rightarrow> error + 's) \<Rightarrow> 'a list \<Rightarrow> 's \<Rightarrow> error + 's" where
  "for_each body [] s = Inr s"
| "for_each body (x # xs) s =
     (case body x s of Inl e \<Rightarrow> Inl e | Inr s' \<Rightarrow> for_each body xs s')"

text \<open>
  \<open>stage_written dst atlas_id s s'\<close>: from \<open>s\<close> to \<open>s'\<close> only stage \<open>dst\<close> of the record
  of \<open>atlas_id\<close> has changed, and the atlas ids are the same in the same order.
\<close>

definition stage_written :: "string \<Rightarrow> string \<Rightarrow> 'v atlas_set \<Rightarrow> 'v atlas_set \<Rightarrow> bool" where
  "stage_written dst atlas_id s s' \<longleftrightarrow>
     (\<exists>r r'. map_of s atlas_id = Some r \<and> map_of s' = (map_of s)(atlas_id \<mapsto> r') \<and>
        map fst s' = map fst s \<and> (\<forall>st. st \<noteq> dst \<longrightarrow> map_of r' st = map_of r st))"

text \<open>
  \<open>rigidly_registered c img_crop guide_structure structs record\<close>: the record holds
  what step 2 leaves for one atlas. The rigid registration of the record's original CT
  image (with the guide structure, if any) returned \<open>(rigid_image, initial_tfm)\<close>;
  every structure of \<open>structs\<close> has an Original entry and an RIR entry, and the RIR
  entry is what \<open>transform_propagation\<close> made of the Original entry with that
  \<open>initial_tfm\<close>; unless a structure has that name, the RIR entry
  \<^verbatim>\<open>'Transform'\<close> is \<open>initial_tfm\<close>.
\<close>

definition rigidly_registered :: "'v collaborators \<Rightarrow> 'v \<Rightarrow> string option \<Rightarrow> string list
    \<Rightarrow> 'v atlas_record \<Rightarrow> bool" where
  "rigidly_registered c img_crop guide_structure structs record \<longleftrightarrow>
     (\<exists>originals rigids atlas_image atlas_struct rigid_image initial_tfm.
        map_of record ''Original'' = Some originals \<and> map_of record ''RIR'' = Some rigids \<and>
        map_of originals ''CT Image'' = Some atlas_image \<and>
        (case guide_structure of None \<Rightarrow> atlas_struct = None
         | Some name \<Rightarrow> (\<exists>v. map_of originals name = Some v \<and> atlas_struct = Some v)) \<and>
        initial_registration c img_crop atlas_image atlas_struct = Inr (rigid_image, initial_tfm) \<and>
        (''Transform'' \<notin> set structs \<longrightarrow> map_of rigids ''Transform'' = Some initial_tfm) \<and>
        (\<forall>struct \<in> set structs. \<exists>i p. map_of originals struct = Some i \<and>
            map_of rigids struct = Some p \<and>
            transform_propagation c img_crop i initial_tfm = Inr p))"

text \<open>
  \<open>deformably_registered c img_crop structs record\<close>: the record holds what step 3
  leaves for one atlas. The deformable registration of the record's RIR CT image
  returned \<open>(deform_image, deform_field)\<close>; every structure of \<open>structs\<close> has an RIR
  entry and a DIR entry, and the DIR entry is what \<open>apply_field\<close> made of the RIR entry
  with that \<open>deform_field\<close>; unless a structure has that name, the DIR entry
  \<^verbatim>\<open>'Transform'\<close> is \<open>deform_field\<close>.
\<close>

definition deformably_registered :: "'v collaborators \<Rightarrow> 'v \<Rightarrow> string list
    \<Rightarrow> 'v atlas_record \<Rightarrow> bool" where
  "deformably_registered c img_crop structs record \<longleftrightarrow>
     (\<exists>rigids deformeds rigid_ct deform_image deform_field.
        map_of record ''RIR'' = Some rigids \<and> map_of record ''DIR'' = Some deformeds \<and>
        map_of rigids ''CT Image'' = Some rigid_ct \<and>
        fast_symmetric_forces_demons_registration c img_crop rigid_ct
          = Inr (deform_image, deform_field) \<and>
        (''Transform'' \<notin> set structs \<longrightarrow> map_of deformeds ''Transform'' = Some deform_field) \<and>
        (\<forall>struct \<in> set structs. \<exists>i p. map_of rigids struct = Some i \<and>
            map_of deformeds struct = Some p \<and> apply_field c i deform_field = Inr p))"

text \<open>
  Collaborators on strings, for evaluation: an image is named by how it was made, and
  a propagated structure by its input and the transform or field applied to it.
  \<open>failing_collaborators\<close> differ in two points: the rigid registration of atlas 11
  raises, and the deformable registration of atlas 12 raises.
\<close>

definition example_collaborators :: "string collaborators" where
  "example_collaborators =
     \<lparr>ReadImage = (\<lambda>path. Inr path),
      initial_registration = (\<lambda>fixed moving guide. Inr (''rigid:'' @ moving, ''tfm:'' @ moving)),
      transform_propagation = (\<lambda>fixed label tfm. Inr (label @ ''|'' @ tfm)),
      fast_symmetric_forces_demons_registration =
        (\<lambda>fixed moving. Inr (''demons:'' @ moving, ''field:'' @ moving)),
      apply_field = (\<lambda>label field. Inr (label @ ''|'' @ field))\<rparr>"

definition failing_collaborators :: "string collaborators" where
  "failing_collaborators =
     \<lparr>ReadImage = (\<lambda>path. Inr path),
      initial_registration =
        (\<lambda>fixed moving guide.
           if moving = ''/atlas/Case_11/Images/Case_11_CROP.nii.gz''
           then Inl (Failure ''rigid registration failed'')
           else Inr (''rigid:'' @ moving, ''tfm:'' @ moving)),
      transform_propagation = (\<lambda>fixed label tfm. Inr (label @ ''|'' @ tfm)),
      fast_symmetric_forces_demons_registration =
        (\<lambda>fixed moving.
           if moving = ''rigid:/atlas/Case_12/Images/Case_12_CROP.nii.gz''
           then Inl (Failure ''demons registration failed'')
           else Inr (''demons:'' @ moving, ''field:'' @ moving)),
      apply_field = (\<lambda>label field. Inr (label @ ''|'' @ field))\<rparr>"

text \<open>
  The atlas set after the three loops with \<open>example_collaborators\<close>, atlases 08 and 11
  and the structure WHOLEHEART.
\<close>

definition example_registered :: "string atlas_set" where
  "example_registered =
     [(''08'',
       [(''Original'',
         [(''CT Image'', ''/atlas/Case_08/Images/Case_08_CROP.nii.gz''),
          (''WHOLEHEART'', ''/atlas/Case_08/Structures/Case_08_WHOLEHEART_CROP.nii.gz'')]),
        (''RIR'',
         [(''CT Image'', ''rigid:/atlas/Case_08/Images/Case_08_CROP.nii.gz''),
          (''Transform'', ''tfm:/atlas/Case_08/Images/Case_08_CROP.nii.gz''),
          (''WHOLEHEART'',
           ''/atlas/Case_08/Structures/Case_08_WHOLEHEART_CROP.nii.gz|tfm:/atlas/Case_08/Images/Case_08_CROP.nii.gz'')]),
        (''DIR'',
         [(''CT Image'', ''demons:rigid:/atlas/Case_08/Images/Case_08_CROP.nii.gz''),
          (''Transform'', ''field:rigid:/atlas/Case_08/Images/Case_08_CROP.nii.gz''),
          (''WHOLEHEART'',
           ''/atlas/Case_08/Structures/Case_08_WHOLEHEART_CROP.nii.gz|tfm:/atlas/Case_08/Images/Case_08_CROP.nii.gz|field:rigid:/atlas/Case_08/Images/Case_08_CROP.nii.gz'')])]),
      (''11'',
       [(''Original'',
         [(''CT Image'', ''/atlas/Case_11/Images/Case_11_CROP.nii.gz''),
          (''WHOLEHEART'', ''/atlas/Case_11/Structures/Case_11_WHOLEHEART_CROP.nii.gz'')]),
        (''RIR'',
         [(''CT Image'', ''rigid:/atlas/Case_11/Images/Case_11_CROP.nii.gz''),
          (''Transform'', ''tfm:/atlas/Case_11/Images/Case_11_CROP.nii.gz''),
          (''WHOLEHEART'',
           ''/atlas/Case_11/Structures/Case_11_WHOLEHEART_CROP.nii.gz|tfm:/atlas/Case_11/Images/Case_11_CROP.nii.gz'')]),
        (''DIR'',
         [(''CT Image'', ''demons:rigid:/atlas/Case_11/Images/Case_11_CROP.nii.gz''),
          (''Transform'', ''field:rigid:/atlas/Case_11/Images/Case_11_CROP.nii.gz''),
          (''WHOLEHEART'',
           ''/atlas/Case_11/Structures/Case_11_WHOLEHEART_CROP.nii.gz|tfm:/atlas/Case_11/Images/Case_11_CROP.nii.gz|field:rigid:/atlas/Case_11/Images/Case_11_CROP.nii.gz'')])])]"

text \<open>Atlas 11 as read, and atlas 12 after its rigid registration.\<close>

definition example_read_11 :: "string atlas_set" where
  "example_read_11 =
     [(''11'',
       [(''Original'', [(''CT Image'', ''/atlas/Case_11/Images/Case_11_CROP.nii.gz'')])])]"

definition example_rigid_12 :: "string atlas_set" where
  "example_rigid_12 =
     [(''12'',
       [(''Original'', [(''CT Image'', ''/atlas/Case_12/Images/Case_12_CROP.nii.gz'')]),
        (''RIR'', [(''CT Image'', ''rigid:/atlas/Case_12/Images/Case_12_CROP.nii.gz''),
                   (''Transform'', ''tfm:/atlas/Case_12/Images/Case_12_CROP.nii.gz'')])])]"

section \<open>Step 6: writing the structures (lines 340-375)\<close>

text \<open>
  What the two loops of step 6 carry from one iteration to the next: the variable
  \<^verbatim>\<open>template_im\<close> (field \<open>template\<close>), the calls of \<^verbatim>\<open>sitk.WriteImage\<close> made so far,
  each with its file name and the volume written (field \<open>written\<close>), and the paths of
  the data objects appended to \<^verbatim>\<open>output_objects\<close>.
\<close>

record 'g step6_state =
  template :: "('g, 8 word) Image"
  written :: "(string \<times> ('g, 8 word) Image) list"
  output_objects :: "string list"

text \<open>
  The second half of both loop bodies. \<open>mask_file_of\<close> is
  \<^verbatim>\<open>os.path.join(working_dir, output_format.format(structure_name))\<close> as a function of
  the structure name.
  \<^verbatim>\<open>
  paste_img = sitk.Paste(template_im, binary_struct, binary_struct.GetSize(),
                         (0, 0, 0), (sag0, cor0, ax0))
  mask_file = os.path.join(working_dir, output_format.format(structure_name))
  sitk.WriteImage(paste_img, mask_file)
  output_data_object = DataObject(type="FILE", path=mask_file, parent=data_object)
  output_objects.append(output_data_object)
  \<close>
\<close>

definition write_structure :: "(string \<Rightarrow> string) \<Rightarrow> box \<Rightarrow> string \<Rightarrow> ('h, 8 word) Image
    \<Rightarrow> 'g step6_state \<Rightarrow> 'g step6_state" where
  "write_structure mask_file_of crop structure_name binary_struct st =
     (let pasted = paste_img (template st) binary_struct crop;
          mask_file = mask_file_of structure_name
      in st\<lparr>written := written st @ [(mask_file, pasted)],
            output_objects := output_objects st @ [mask_file]\<rparr>)"

text \<open>
  The first loop (lines 346-361). \<open>optimalThreshold\<close> is
  \<^verbatim>\<open>settings["labelFusionSettings"]["optimalThreshold"]\<close>, \<open>combined_label_dict\<close> the
  result of \<^verbatim>\<open>combine_labels\<close>; \<open>threshold_image\<close> stands for the collaborator
  \<^verbatim>\<open>process_probability_image\<close>, which returns a mask or raises.
  \<^verbatim>\<open>
  for structure_name in vote_structures:
      optimal_threshold = settings["labelFusionSettings"]["optimalThreshold"][structure_name]
      binary_struct = process_probability_image(
          combined_label_dict[structure_name], optimal_threshold)
      ...
  \<close>
\<close>

fun vote_loop :: "(('h, real) Image \<Rightarrow> real \<Rightarrow> error + ('h, 8 word) Image)
    \<Rightarrow> (string \<times> real) list \<Rightarrow> (string \<times> ('h, real) Image) list
    \<Rightarrow> (string \<Rightarrow> string) \<Rightarrow> box \<Rightarrow> string list \<Rightarrow> 'g step6_state
    \<Rightarrow> error + 'g step6_state" where
  "vote_loop threshold_image optimalThreshold combined_label_dict mask_file_of crop [] st = Inr st"
| "vote_loop threshold_image optimalThreshold combined_label_dict mask_file_of crop
     (structure_name # rest) st =
     (case map_of optimalThreshold structure_name of None \<Rightarrow> Inl (KeyError structure_name)
      | Some optimal_threshold \<Rightarrow>
     (case map_of combined_label_dict structure_name of
        None \<Rightarrow> Inl (KeyError structure_name)
      | Some probability_image \<Rightarrow>
     (case threshold_image probability_image optimal_threshold of Inl e \<Rightarrow> Inl e
      | Inr binary_struct \<Rightarrow>
          vote_loop threshold_image optimalThreshold combined_label_dict mask_file_of crop rest
            (write_structure mask_file_of crop structure_name binary_struct st))))"

text \<open>
  The second loop (lines 363-375); \<open>segmented_vessel_dict\<close> is the result of
  \<^verbatim>\<open>vesselSplineGeneration\<close>.
  \<^verbatim>\<open>
  for structure_name in vessel_name_list:
      binary_struct = segmented_vessel_dict[structure_name]
      ...
  \<close>
\<close>

fun vessel_loop :: "(string \<times> ('h, 8 word) Image) list \<Rightarrow> (string \<Rightarrow> string) \<Rightarrow> box
    \<Rightarrow> string list \<Rightarrow> 'g step6_state \<Rightarrow> error + 'g step6_state" where
  "vessel_loop segmented_vessel_dict mask_file_of crop [] st = Inr st"
| "vessel_loop segmented_vessel_dict mask_file_of crop (structure_name # rest) st =
     (case map_of segmented_vessel_dict structure_name of
        None \<Rightarrow> Inl (KeyError structure_name)
      | Some binary_struct \<Rightarrow>
          vessel_loop segmented_vessel_dict mask_file_of crop rest
            (write_structure mask_file_of crop structure_name binary_struct st))"

text \<open>
  Step 6 for one target \<open>img\<close>: the template of line 342, the structures of
  \<^verbatim>\<open>vote_structures = settings["labelFusionSettings"]["optimalThreshold"].keys()\<close>, then
  those of \<^verbatim>\<open>vessel_name_list\<close>. \<open>objects\<close> are the output objects of the targets
  handled before.
\<close>

definition step6 :: "(('h, real) Image \<Rightarrow> real \<Rightarrow> error + ('h, 8 word) Image)
    \<Rightarrow> (string \<times> real) list \<Rightarrow> (string \<times> ('h, real) Image) list
    \<Rightarrow> (string \<times> ('h, 8 word) Image) list \<Rightarrow> string list
    \<Rightarrow> (string \<Rightarrow> string) \<Rightarrow> box \<Rightarrow> ('g, int) Image \<Rightarrow> string list
    \<Rightarrow> error + 'g step6_state" where
  "step6 threshold_image optimalThreshold combined_label_dict segmented_vessel_dict
     vessel_name_list mask_file_of crop img objects =
     (case vote_loop threshold_image optimalThreshold combined_label_dict mask_file_of crop
             (map fst optimalThreshold)
             \<lparr>template = template_im img, written = [], output_objects = objects\<rparr> of
        Inl e \<Rightarrow> Inl e
      | Inr st \<Rightarrow> vessel_loop segmented_vessel_dict mask_file_of crop vessel_name_list st)"

text \<open>The mask a structure name stands for in the first and in the second loop.\<close>

definition vote_mask :: "(('h, real) Image \<Rightarrow> real \<Rightarrow> error + ('h, 8 word) Image)
    \<Rightarrow> (string \<times> real) list \<Rightarrow> (string \<times> ('h, real) Image) list \<Rightarrow> string
    \<Rightarrow> ('h, 8 word) Image \<Rightarrow> bool" where
  "vote_mask threshold_image optimalThreshold combined_label_dict structure_name binary_struct
     \<longleftrightarrow>
     (\<exists>optimal_threshold probability_image.
        map_of optimalThreshold structure_name = Some optimal_threshold \<and>
        map_of combined_label_dict structure_name = Some probability_image \<and>
        threshold_image probability_image optimal_threshold = Inr binary_struct)"

text \<open>
  \<open>pasted_alone t crop mask_file_of mask_of structure_name w\<close>: the write \<open>w\<close> has the
  file name of the structure and its volume is the template \<open>t\<close> with one mask of that
  structure pasted in.
\<close>

definition pasted_alone :: "('g, 8 word) Image \<Rightarrow> box \<Rightarrow> (string \<Rightarrow> string)
    \<Rightarrow> (string \<Rightarrow> ('h, 8 word) Image \<Rightarrow> bool) \<Rightarrow> string \<Rightarrow> string \<times> ('g, 8 word) Image \<Rightarrow> bool" where
  "pasted_alone t crop mask_file_of mask_of structure_name w \<longleftrightarrow>
     fst w = mask_file_of structure_name \<and>
     (\<exists>binary_struct. mask_of structure_name binary_struct \<and>
        snd w = paste_img t binary_struct crop)"

text \<open>A run of step 6 for evaluation: one vote structure and one vessel.\<close>

definition example_vessel :: "(unit, 8 word) Image" where
  "example_vessel = \<lparr>geometry = (), GetSize = (1, 1, 2), voxels = [[[0, 1]]]\<rparr>"

definition example_step6 :: "error + unit step6_state" where
  "example_step6 =
     step6 (\<lambda>p t. Inr (process_probability_image p t)) [(''WHOLEHEART'', 0.44)]
       [(''WHOLEHEART'', \<lparr>geometry = (), GetSize = (1, 1, 2), voxels = [[[0.5, 0.2]]]\<rparr>)]
       [(''LANTDESCARTERY'', example_vessel)] [''LANTDESCARTERY'']
       (\<lambda>name. ''Auto_'' @ name @ ''.nii.gz'') (1, 0, 0, 1, 1, 2) example_img []"

definition example_step6_result :: "unit step6_state" where
  "example_step6_result =
     \<lparr>template = \<lparr>geometry = (), GetSize = (3, 1, 2),
                   voxels = [[[0, 0]], [[0, 0]], [[0, 0]]]\<rparr>,
      written =
        [(''Auto_WHOLEHEART.nii.gz'',
          \<lparr>geometry = (), GetSize = (3, 1, 2), voxels = [[[0, 0]], [[1, 0]], [[0, 0]]]\<rparr>),
         (''Auto_LANTDESCARTERY.nii.gz'',
          \<lparr>geometry = (), GetSize = (3, 1, 2), voxels = [[[0, 0]], [[0, 1]], [[0, 0]]]\<rparr>)],
      output_objects = [''Auto_WHOLEHEART.nii.gz'', ''Auto_LANTDESCARTERY.nii.gz'']\<rparr>"

section \<open>Properties of the crop box\<close>

lemma crop_box_eq:
  "crop_box (b0, b1, b2, b3, b4, b5) settings (size0, size1, size2) =
     (max (b0 - sagittalExpansion settings) 0,
      max (b1 - coronalExpansion settings) 0,
      max (b2 - axialExpansion settings) 0,
      min (b3 + sagittalExpansion settings) (int size0 - max (b0 - sagittalExpansion settings) 0),
      min (b4 + coronalExpansion settings) (int size1 - max (b1 - coronalExpansion settings) 0),
      min (b5 + axialExpansion settings) (int size2 - max (b2 - axialExpansion settings) 0))"
  by (simp add: crop_box_def Let_def)

text \<open>
  Where the expanded origin is not clamped and the detected region ends inside the
  volume, the far face of the crop box is the far face of the detected region itself:
  growing the size by one margin only makes up for the shifted origin.
\<close>

lemma crop_box_far_face:
  assumes "0 \<le> b1 - coronalExpansion settings" and "b1 + b4 \<le> int size1"
  shows "(case crop_box (b0, b1, b2, b3, b4, b5) settings (size0, size1, size2) of
            (sag0, cor0, ax0, sag_d, cor_d, ax_d) \<Rightarrow> cor0 + cor_d = b1 + b4)"
  using assms by (simp add: crop_box_eq)

text \<open>
  With nonnegative margins and a detected region inside the volume, the crop box
  contains the detected region, and on the near side also the margin or, where the
  margin would leave the volume, everything down to index 0.
\<close>

lemma crop_box_contains_detected:
  assumes "0 \<le> coronalExpansion settings" and "0 \<le> b1" and "b1 + b4 \<le> int size1"
  shows "(case crop_box (b0, b1, b2, b3, b4, b5) settings (size0, size1, size2) of
            (sag0, cor0, ax0, sag_d, cor_d, ax_d) \<Rightarrow>
              cor0 = max (b1 - coronalExpansion settings) 0 \<and> cor0 \<le> b1 \<and>
              b1 + b4 \<le> cor0 + cor_d)"
  using assms by (simp add: crop_box_eq)

lemma crop_box_bounds:
  assumes "crop_box lung_bounding_box settings (size0, size1, size2) =
             (sag0, cor0, ax0, sag_d, cor_d, ax_d)"
  shows "0 \<le> sag0 \<and> sag0 + sag_d \<le> int size0 \<and>
         0 \<le> cor0 \<and> cor0 + cor_d \<le> int size1 \<and>
         0 \<le> ax0 \<and> ax0 + ax_d \<le> int size2"
proof -
  obtain b0 b1 b2 b3 b4 b5 where bb: "lung_bounding_box = (b0, b1, b2, b3, b4, b5)"
    by (cases lung_bounding_box) auto
  have hi: "m + min d (n - m) \<le> n" for m d n :: int
    by linarith
  from assms have "sag0 = max (b0 - sagittalExpansion settings) 0"
    "cor0 = max (b1 - coronalExpansion settings) 0"
    "ax0 = max (b2 - axialExpansion settings) 0"
    "sag_d = min (b3 + sagittalExpansion settings) (int size0 - sag0)"
    "cor_d = min (b4 + coronalExpansion settings) (int size1 - cor0)"
    "ax_d = min (b5 + axialExpansion settings) (int size2 - ax0)"
    unfolding bb crop_box_eq by auto
  then show ?thesis
    using hi [of sag0 _ "int size0"] hi [of cor0 _ "int size1"] hi [of ax0 _ "int size2"]
    by simp
qed

text \<open>
  Claim C8. For every detector bounding box, every margin setting and every image
  size, the crop box stays inside the volume: on each axis its origin is at least 0
  and its origin plus its size is at most the image size.
\<close>

theorem crop_box_within_volume:
  "(case crop_box lung_bounding_box settings img_size of
      (sag0, cor0, ax0, sag_d, cor_d, ax_d) \<Rightarrow>
        0 \<le> sag0 \<and> sag0 + sag_d \<le> int (fst img_size) \<and>
        0 \<le> cor0 \<and> cor0 + cor_d \<le> int (fst (snd img_size)) \<and>
        0 \<le> ax0 \<and> ax0 + ax_d \<le> int (snd (snd img_size)))"
proof -
  obtain b0 b1 b2 b3 b4 b5 where bb: "lung_bounding_box = (b0, b1, b2, b3, b4, b5)"
    by (cases lung_bounding_box) auto
  obtain size0 size1 size2 where sz: "img_size = (size0, size1, size2)"
    by (cases img_size) auto
  have hi: "m + min d (n - m) \<le> n" for m d n :: int
    by linarith
  show ?thesis
    unfolding bb sz crop_box_eq by (simp add: hi)
qed

text \<open>
  Claim C1, evaluated on the code. With the default margins (coronal 15, axial 5), a
  detected box with origin (40, 40, 20) and size (100, 100, 60) in a 200 x 200 x 100
  volume yields the crop box (40, 25, 15, 100, 115, 65). Its coronal far face is
  25 + 115 = 140, the far face of the detected region, although the region expanded by
  the margin ends at 40 + 100 + 15 = 155, inside the volume; the axial axis likewise
  ends at 80 instead of 85.
\<close>

theorem crop_box_misses_far_margin:
  "crop_box (40, 40, 20, 100, 100, 60) default_lungMaskSettings (200, 200, 100)
     = (40, 25, 15, 100, 115, 65)
   \<and> (25::int) + 115 < 40 + 100 + 15 \<and> (40::int) + 100 + 15 \<le> 200
   \<and> (15::int) + 65 < 20 + 60 + 5 \<and> (20::int) + 60 + 5 \<le> 100"
  by (simp add: crop_box_eq default_lungMaskSettings_def)

text \<open>
  Claim C7, evaluated on the code. Lines 172-198 hold no check of the detected box (the
  comment at lines 196-198 says one should be there). A detection that covers the whole
  200 x 200 x 100 volume gives the whole volume as crop box, and a detection of size
  zero at the origin gives a crop box with no voxel (sagittal size 0); in both cases the
  box is handed on to the crop and to registration like any other.
\<close>

theorem crop_box_unchecked:
  "crop_box (0, 0, 0, 200, 200, 100) default_lungMaskSettings (200, 200, 100)
     = (0, 0, 0, 200, 200, 100)
   \<and> crop_box (0, 0, 0, 0, 0, 0) default_lungMaskSettings (200, 200, 100)
     = (0, 0, 0, 0, 15, 5)"
  by (simp add: crop_box_eq default_lungMaskSettings_def)

section \<open>Properties of paste and slice\<close>

lemma length_paste_line: "length (paste_line f off src dst) = length dst"
  by (simp add: paste_line_def)

lemma nth_paste_line:
  "i < length dst \<Longrightarrow>
   paste_line f off src dst ! i =
     (if off \<le> int i \<and> int i < off + int (length src)
      then f (src ! nat (int i - off)) (dst ! i) else dst ! i)"
  by (simp add: paste_line_def)

lemma length_slice_line:
  "0 \<le> off \<Longrightarrow> 0 \<le> n \<Longrightarrow> off + n \<le> int (length xs) \<Longrightarrow> length (slice_line off n xs) = nat n"
  by (simp add: slice_line_def)

lemma nth_slice_line:
  "0 \<le> off \<Longrightarrow> i < nat n \<Longrightarrow> off + n \<le> int (length xs) \<Longrightarrow>
   slice_line off n xs ! i = xs ! (nat off + i)"
  by (simp add: slice_line_def) 

lemma slice_line_all: "slice_line 0 (int (length xs)) xs = xs"
  by (simp add: slice_line_def)

lemma map_slice_paste_line:
  assumes "0 \<le> off" and "off + int (length src) \<le> int (length dst)"
    and "\<And>i. i < length src \<Longrightarrow> g (f (src ! i) (dst ! (nat off + i))) = src ! i"
  shows "map g (slice_line off (int (length src)) (paste_line f off src dst)) = src"
proof (rule nth_equalityI)
  show len: "length (map g (slice_line off (int (length src)) (paste_line f off src dst))) = length src"
    using assms(1,2) by (simp add: length_slice_line length_paste_line)
  fix i assume "i < length (map g (slice_line off (int (length src)) (paste_line f off src dst)))"
  then have i: "i < length src" using len by simp
  have in_dst: "nat off + i < length dst" using assms(1,2) i by linarith
  have "slice_line off (int (length src)) (paste_line f off src dst) ! i
          = paste_line f off src dst ! (nat off + i)"
    using assms(1,2) i by (simp add: nth_slice_line length_paste_line)
  also have "\<dots> = f (src ! i) (dst ! (nat off + i))"
    using assms(1) i in_dst by (simp add: nth_paste_line)
  finally show "map g (slice_line off (int (length src)) (paste_line f off src dst)) ! i = src ! i"
    using assms(3) [OF i] i assms(1,2) by (simp add: length_slice_line length_paste_line)
qed

lemma well_formed_iff:
  "well_formed img \<longleftrightarrow>
     length (voxels img) = fst (GetSize img) \<and>
     (\<forall>x < length (voxels img). length (voxels img ! x) = fst (snd (GetSize img)) \<and>
        (\<forall>y < length (voxels img ! x). length (voxels img ! x ! y) = snd (snd (GetSize img))))"
  by (auto simp: well_formed_def list_all_length split: prod.splits)

lemma slice_voxels_all:
  assumes "well_formed img" and "GetSize img = (n0, n1, n2)"
  shows "slice_voxels (0, 0, 0) (int n0, int n1, int n2) (voxels img) = voxels img"
proof -
  have rows: "map (slice_line 0 (int n2)) plane = plane"
    if "list_all (\<lambda>row. length row = n2) plane" for plane :: "'b list list"
    using that by (induction plane) (simp_all add: slice_line_def)
  have planes: "map (\<lambda>plane. map (slice_line 0 (int n2)) (slice_line 0 (int n1) plane)) v = v"
    if "list_all (\<lambda>plane. length plane = n1 \<and> list_all (\<lambda>row. length row = n2) plane) v"
    for v :: "'b list list list"
    using that by (induction v) (simp_all add: rows slice_line_def [of 0 "int n1"])
  from assms have len: "length (voxels img) = n0"
    and all: "list_all (\<lambda>plane. length plane = n1 \<and> list_all (\<lambda>row. length row = n2) plane) (voxels img)"
    by (simp_all add: well_formed_def)
  have "slice_line 0 (int n0) (voxels img) = voxels img"
    using len slice_line_all [of "voxels img"] by simp
  then show ?thesis
    by (simp add: slice_voxels_def planes [OF all])
qed

lemma nth_paste_voxels:
  assumes "x < length dst" and "y < length (dst ! x)" and "z < length (dst ! x ! y)"
  shows "paste_voxels (i0, i1, i2) src dst ! x ! y ! z =
     (if i0 \<le> int x \<and> int x < i0 + int (length src) \<and>
         i1 \<le> int y \<and> int y < i1 + int (length (src ! nat (int x - i0))) \<and>
         i2 \<le> int z \<and> int z < i2 + int (length (src ! nat (int x - i0) ! nat (int y - i1)))
      then src ! nat (int x - i0) ! nat (int y - i1) ! nat (int z - i2)
      else dst ! x ! y ! z)"
  using assms by (simp add: paste_voxels_def nth_paste_line)

lemma slice_paste_voxels:
  assumes src: "length src = n0" "\<And>x. x < n0 \<Longrightarrow> length (src ! x) = n1"
      "\<And>x y. x < n0 \<Longrightarrow> y < n1 \<Longrightarrow> length (src ! x ! y) = n2"
    and dst: "length dst = m0" "\<And>x. x < m0 \<Longrightarrow> length (dst ! x) = m1"
      "\<And>x y. x < m0 \<Longrightarrow> y < m1 \<Longrightarrow> length (dst ! x ! y) = m2"
    and fits: "0 \<le> i0" "i0 + int n0 \<le> int m0" "0 \<le> i1" "i1 + int n1 \<le> int m1"
      "0 \<le> i2" "i2 + int n2 \<le> int m2"
  shows "slice_voxels (i0, i1, i2) (int n0, int n1, int n2) (paste_voxels (i0, i1, i2) src dst) = src"
proof -
  have row: "slice_line i2 (int n2) (paste_line (\<lambda>s d. s) i2 sr dr) = sr"
    if "length sr = n2" "length dr = m2" for sr dr :: "'a list"
    using map_slice_paste_line [of i2 sr dr id "\<lambda>s d. s"] that fits by simp
  have plane: "map (slice_line i2 (int n2))
                 (slice_line i1 (int n1) (paste_line (paste_line (\<lambda>s d. s) i2) i1 sp dp)) = sp"
    if sp: "length sp = n1" "\<And>y. y < n1 \<Longrightarrow> length (sp ! y) = n2"
      and dp: "length dp = m1" "\<And>y. y < m1 \<Longrightarrow> length (dp ! y) = m2"
    for sp dp :: "'a list list"
  proof -
    have "map (slice_line i2 (int n2))
            (slice_line i1 (int (length sp)) (paste_line (paste_line (\<lambda>s d. s) i2) i1 sp dp)) = sp"
    proof (rule map_slice_paste_line)
      show "0 \<le> i1" by (rule fits)
      show "i1 + int (length sp) \<le> int (length dp)" using fits sp dp by simp
      fix i assume i: "i < length sp"
      then have "nat i1 + i < m1" using fits sp by linarith
      then show "slice_line i2 (int n2) (paste_line (\<lambda>s d. s) i2 (sp ! i) (dp ! (nat i1 + i))) = sp ! i"
        using i sp dp by (intro row) auto
    qed
    then show ?thesis using sp by simp
  qed
  have "map (\<lambda>plane. map (slice_line i2 (int n2)) (slice_line i1 (int n1) plane))
          (slice_line i0 (int (length src))
             (paste_line (paste_line (paste_line (\<lambda>s d. s) i2) i1) i0 src dst)) = src"
  proof (rule map_slice_paste_line)
    show "0 \<le> i0" by (rule fits)
    show "i0 + int (length src) \<le> int (length dst)" using fits src dst by simp
    fix i assume i: "i < length src"
    then have "nat i0 + i < m0" using fits src by linarith
    then show "map (slice_line i2 (int n2))
        (slice_line i1 (int n1)
          (paste_line (paste_line (\<lambda>s d. s) i2) i1 (src ! i) (dst ! (nat i0 + i)))) = src ! i"
      using i src dst by (intro plane) auto
  qed
  then show ?thesis using src by (simp add: slice_voxels_def paste_voxels_def)
qed

lemma well_formed_nth:
  assumes "well_formed img" and "GetSize img = (n0, n1, n2)"
  shows "length (voxels img) = n0"
    and "x < n0 \<Longrightarrow> length (voxels img ! x) = n1"
    and "x < n0 \<Longrightarrow> y < n1 \<Longrightarrow> length (voxels img ! x ! y) = n2"
  using assms by (auto simp: well_formed_iff)

lemma well_formed_map_image: "well_formed img \<Longrightarrow> well_formed (map_image f img)"
  by (simp add: well_formed_iff map_image_def)

lemma well_formed_template_im: "well_formed img \<Longrightarrow> well_formed (template_im img)"
  by (simp add: template_im_def Cast_UInt8_def well_formed_map_image)

lemma GetSize_template_im: "GetSize (template_im img) = GetSize img"
  by (simp add: template_im_def Cast_UInt8_def map_image_def)

lemma geometry_template_im: "geometry (template_im img) = geometry img"
  by (simp add: template_im_def Cast_UInt8_def map_image_def)

lemma voxels_template_im:
  assumes "well_formed img" and "GetSize img = (n0, n1, n2)" and "x < n0" "y < n1" "z < n2"
  shows "voxels (template_im img) ! x ! y ! z = 0"
  using assms well_formed_nth [OF assms(1,2)]
  by (simp add: template_im_def Cast_UInt8_def map_image_def)

lemma well_formed_Paste:
  assumes "well_formed dst"
  shows "well_formed (Paste dst src sz sidx didx)"
proof -
  obtain n0 n1 n2 where sz: "sz = (n0, n1, n2)" by (cases sz) auto
  obtain i0 i1 i2 where didx: "didx = (i0, i1, i2)" by (cases didx) auto
  show ?thesis
    using assms unfolding well_formed_iff sz didx
    by (simp add: Paste_def paste_voxels_def length_paste_line nth_paste_line)
qed

lemma GetPixel_Paste_full:
  assumes dst: "well_formed dst" and src: "well_formed src"
    and sz: "GetSize src = (n0, n1, n2)"
  shows "GetPixel (Paste dst src (GetSize src) (0, 0, 0) (i0, i1, i2)) (x, y, z) =
     (if i0 \<le> int x \<and> int x < i0 + int n0 \<and> i1 \<le> int y \<and> int y < i1 + int n1 \<and>
         i2 \<le> int z \<and> int z < i2 + int n2
      then (case GetPixel dst (x, y, z) of None \<Rightarrow> None
            | Some _ \<Rightarrow> GetPixel src (nat (int x - i0), nat (int y - i1), nat (int z - i2)))
      else GetPixel dst (x, y, z))"
proof -
  obtain m0 m1 m2 where dsz: "GetSize dst = (m0, m1, m2)" by (cases "GetSize dst") auto
  note d = well_formed_nth [OF dst dsz]
  note s = well_formed_nth [OF src sz]
  have vox: "voxels (Paste dst src (GetSize src) (0, 0, 0) (i0, i1, i2)) =
      paste_voxels (i0, i1, i2) (voxels src) (voxels dst)"
    using slice_voxels_all [OF src sz] by (simp add: Paste_def sz)
  show ?thesis
  proof (cases "x < m0 \<and> y < m1 \<and> z < m2")
    case False
    then show ?thesis by (auto simp: GetPixel_def Paste_def dsz sz)
  next
    case True
    then have "voxels (Paste dst src (GetSize src) (0, 0, 0) (i0, i1, i2)) ! x ! y ! z =
       (if i0 \<le> int x \<and> int x < i0 + int n0 \<and> i1 \<le> int y \<and> int y < i1 + int n1 \<and>
         i2 \<le> int z \<and> int z < i2 + int n2
        then voxels src ! nat (int x - i0) ! nat (int y - i1) ! nat (int z - i2)
        else voxels dst ! x ! y ! z)"
      unfolding vox using d s
      by (subst nth_paste_voxels) (auto simp: nat_less_iff)
    moreover have "GetSize (Paste dst src (GetSize src) (0, 0, 0) (i0, i1, i2)) = (m0, m1, m2)"
      by (simp add: Paste_def sz dsz)
    ultimately show ?thesis
      using True by (auto simp: GetPixel_def dsz sz nat_less_iff)
  qed
qed

lemma length_slice_length:
  "length (slice_line off n xs) = slice_length off n (length xs)"
  by (simp add: slice_line_def slice_length_def)

text \<open>
  Claim C3. For every well-formed target volume and every well-formed mask, the volume
  that step 6 pastes together has the target's size and geometry and is well formed;
  a voxel inside the volume and inside the region that starts at the crop origin
  \<open>(sag0, cor0, ax0)\<close> and has the mask's size is the mask's voxel at the index minus
  the crop origin; every other voxel of the volume is zero; nothing lies outside the
  target's size. This holds for every crop box, so for the one \<open>crop_box\<close> computes.
\<close>

theorem paste_img_voxels:
  assumes "well_formed img" and "well_formed binary_struct"
    and "GetSize img = (size0, size1, size2)" and "GetSize binary_struct = (n0, n1, n2)"
  shows "GetSize (paste_img (template_im img) binary_struct (sag0, cor0, ax0, sag_d, cor_d, ax_d))
           = GetSize img
     \<and> geometry (paste_img (template_im img) binary_struct (sag0, cor0, ax0, sag_d, cor_d, ax_d))
           = geometry img
     \<and> well_formed (paste_img (template_im img) binary_struct (sag0, cor0, ax0, sag_d, cor_d, ax_d))
     \<and> GetPixel (paste_img (template_im img) binary_struct (sag0, cor0, ax0, sag_d, cor_d, ax_d))
           (x, y, z) =
         (if x < size0 \<and> y < size1 \<and> z < size2 then
            if sag0 \<le> int x \<and> int x < sag0 + int n0 \<and>
               cor0 \<le> int y \<and> int y < cor0 + int n1 \<and>
               ax0 \<le> int z \<and> int z < ax0 + int n2
            then GetPixel binary_struct (nat (int x - sag0), nat (int y - cor0), nat (int z - ax0))
            else Some 0
          else None)"
proof -
  let ?out = "paste_img (template_im img) binary_struct (sag0, cor0, ax0, sag_d, cor_d, ax_d)"
  have out: "?out = Paste (template_im img) binary_struct (GetSize binary_struct) (0, 0, 0)
                      (sag0, cor0, ax0)"
    by (simp add: paste_img_def)
  have wt: "well_formed (template_im img)"
    by (rule well_formed_template_im [OF assms(1)])
  have tpl: "GetPixel (template_im img) (x, y, z) =
               (if x < size0 \<and> y < size1 \<and> z < size2 then Some 0 else None)"
    using voxels_template_im [OF assms(1,3)]
    by (simp add: GetPixel_def GetSize_template_im assms(3))
  have "GetSize ?out = GetSize img" "geometry ?out = geometry img"
    by (simp_all add: out Paste_def assms(4) GetSize_template_im geometry_template_im)
  moreover have "well_formed ?out"
    unfolding out by (rule well_formed_Paste [OF wt])
  moreover have "GetPixel ?out (x, y, z) =
         (if x < size0 \<and> y < size1 \<and> z < size2 then
            if sag0 \<le> int x \<and> int x < sag0 + int n0 \<and>
               cor0 \<le> int y \<and> int y < cor0 + int n1 \<and>
               ax0 \<le> int z \<and> int z < ax0 + int n2
            then GetPixel binary_struct (nat (int x - sag0), nat (int y - cor0), nat (int z - ax0))
            else Some 0
          else None)"
    unfolding out GetPixel_Paste_full [OF wt assms(2,4)] tpl by simp
  ultimately show ?thesis by simp
qed

lemma well_formed_example_img: "well_formed example_img"
  by (simp add: well_formed_def example_img_def)

lemma well_formed_example_mask: "well_formed example_mask"
  by (simp add: well_formed_def example_mask_def)

theorem paste_img_voxels_witness:
  "well_formed example_img \<and> well_formed example_mask
   \<and> GetPixel (paste_img (template_im example_img) example_mask (1, 0, 0, 1, 1, 2)) (1, 0, 0)
        = Some 1
   \<and> GetPixel (paste_img (template_im example_img) example_mask (1, 0, 0, 1, 1, 2)) (2, 0, 0)
        = Some 0
   \<and> GetPixel (paste_img (template_im example_img) example_mask (1, 0, 0, 1, 1, 2)) (3, 0, 0)
        = None"
proof -
  have sz: "GetSize example_img = (3, 1, 2)" "GetSize example_mask = (1, 1, 2)"
    by (simp_all add: example_img_def example_mask_def)
  note inst = paste_img_voxels [OF well_formed_example_img well_formed_example_mask sz,
      of 1 0 0 1 1 2]
  have m: "GetPixel example_mask (0, 0, 0) = Some 1"
    by (simp add: GetPixel_def example_mask_def)
  have "GetPixel (paste_img (template_im example_img) example_mask (1, 0, 0, 1, 1, 2)) (1, 0, 0)
        = Some 1"
    using inst [of 1 0 0] m by simp
  moreover have "GetPixel (paste_img (template_im example_img) example_mask (1, 0, 0, 1, 1, 2)) (2, 0, 0)
        = Some 0"
    using inst [of 2 0 0] by simp
  moreover have "GetPixel (paste_img (template_im example_img) example_mask (1, 0, 0, 1, 1, 2)) (3, 0, 0)
        = None"
    using inst [of 3 0 0] by simp
  ultimately show ?thesis
    using well_formed_example_img well_formed_example_mask by simp
qed

lemma slice_length_inside:
  "0 \<le> off \<Longrightarrow> 0 \<le> n \<Longrightarrow> off + n \<le> int len \<Longrightarrow> slice_length off n len = nat n"
  by (simp add: slice_length_def)

text \<open>
  Claim C4. Let the crop box be the one step 1 computes for a well-formed target, with
  nonnegative sizes, and let a well-formed binary_struct have exactly the size of the crop box
  (a mask in cropped space). Pasting the mask into the zero template at the crop origin
  and cropping the result with the same box gives back the mask: the same voxels and
  the same size.
\<close>

theorem crop_paste_roundtrip:
  assumes img: "well_formed img" and bs: "well_formed binary_struct"
    and crop: "crop_box lung_bounding_box settings (GetSize img) =
                 (sag0, cor0, ax0, sag_d, cor_d, ax_d)"
    and msize: "GetSize binary_struct = (nat sag_d, nat cor_d, nat ax_d)"
    and nonneg: "0 \<le> sag_d" "0 \<le> cor_d" "0 \<le> ax_d"
  shows "voxels (CropImage slice_geometry
                   (paste_img (template_im img) binary_struct (sag0, cor0, ax0, sag_d, cor_d, ax_d))
                   (sag0, cor0, ax0, sag_d, cor_d, ax_d)) = voxels binary_struct
       \<and> GetSize (CropImage slice_geometry
                   (paste_img (template_im img) binary_struct (sag0, cor0, ax0, sag_d, cor_d, ax_d))
                   (sag0, cor0, ax0, sag_d, cor_d, ax_d)) = GetSize binary_struct"
proof -
  obtain size0 size1 size2 where isz: "GetSize img = (size0, size1, size2)"
    by (cases "GetSize img") auto
  have tsz: "GetSize (template_im img) = (size0, size1, size2)"
    by (simp add: GetSize_template_im isz)
  note b = crop_box_bounds [OF crop [unfolded isz]]
  note t = well_formed_nth [OF well_formed_template_im [OF img] tsz]
  note m = well_formed_nth [OF bs msize]
  have src: "slice_voxels (0, 0, 0) (int (nat sag_d), int (nat cor_d), int (nat ax_d)) (voxels binary_struct)
               = voxels binary_struct"
    by (rule slice_voxels_all [OF bs msize])
  have "slice_voxels (sag0, cor0, ax0) (int (nat sag_d), int (nat cor_d), int (nat ax_d))
          (paste_voxels (sag0, cor0, ax0) (voxels binary_struct) (voxels (template_im img))) = voxels binary_struct"
  proof (rule slice_paste_voxels)
    show "length (voxels binary_struct) = nat sag_d" by (rule m(1))
    show "length (voxels binary_struct ! x) = nat cor_d" if "x < nat sag_d" for x
      using that by (rule m(2))
    show "length (voxels binary_struct ! x ! y) = nat ax_d" if "x < nat sag_d" "y < nat cor_d" for x y
      using that by (rule m(3))
    show "length (voxels (template_im img)) = size0" by (rule t(1))
    show "length (voxels (template_im img) ! x) = size1" if "x < size0" for x
      using that by (rule t(2))
    show "length (voxels (template_im img) ! x ! y) = size2" if "x < size0" "y < size1" for x y
      using that by (rule t(3))
    show "0 \<le> sag0" "0 \<le> cor0" "0 \<le> ax0" using b by simp_all
    show "sag0 + int (nat sag_d) \<le> int size0" "cor0 + int (nat cor_d) \<le> int size1"
      "ax0 + int (nat ax_d) \<le> int size2"
      using b nonneg by simp_all
  qed
  then have vox: "slice_voxels (sag0, cor0, ax0) (sag_d, cor_d, ax_d)
          (paste_voxels (sag0, cor0, ax0) (voxels binary_struct) (voxels (template_im img))) = voxels binary_struct"
    using nonneg by simp
  have len: "slice_length sag0 sag_d size0 = nat sag_d" "slice_length cor0 cor_d size1 = nat cor_d"
    "slice_length ax0 ax_d size2 = nat ax_d"
    using b nonneg by (simp_all add: slice_length_inside)
  show ?thesis
    using vox src by (simp add: CropImage_def paste_img_def Paste_def msize tsz len)
qed

theorem crop_paste_roundtrip_witness:
  "well_formed example_img \<and> well_formed example_mask
   \<and> crop_box (1, 0, 1, 1, 1, 1) example_settings (GetSize example_img) = (1, 0, 0, 1, 1, 2)
   \<and> GetSize example_mask = (nat 1, nat 1, nat 2)
   \<and> voxels (CropImage (\<lambda>b g. g)
               (paste_img (template_im example_img) example_mask (1, 0, 0, 1, 1, 2))
               (1, 0, 0, 1, 1, 2)) = [[[1, 0]]]"
proof -
  have crop: "crop_box (1, 0, 1, 1, 1, 1) example_settings (GetSize example_img)
                = (1, 0, 0, 1, 1, 2)"
    by (simp add: crop_box_eq example_settings_def example_img_def)
  have msize: "GetSize example_mask = (nat 1, nat 1, nat 2)"
    by (simp add: example_mask_def)
  have "voxels (CropImage (\<lambda>b g. g)
               (paste_img (template_im example_img) example_mask (1, 0, 0, 1, 1, 2))
               (1, 0, 0, 1, 1, 2)) = voxels example_mask"
    using crop_paste_roundtrip [OF well_formed_example_img well_formed_example_mask crop msize]
    by simp
  then show ?thesis
    using well_formed_example_img well_formed_example_mask crop msize
    by (simp add: example_mask_def)
qed

section \<open>Properties of the fusion threshold\<close>

lemma voxels_process_probability_image:
  "concat (concat (voxels (process_probability_image probability_image threshold))) =
     map (\<lambda>p. if threshold \<le> p then 1 else 0) (concat (concat (voxels probability_image)))"
  by (simp add: process_probability_image_def map_image_def map_concat)

lemma length_filter_map_mono:
  assumes "\<And>x. P (f x) \<Longrightarrow> Q (g x)"
  shows "length (filter P (map f xs)) \<le> length (filter Q (map g xs))"
  using assms by (induction xs) auto

text \<open>
  Claim C5. For a fixed well-formed probability volume and cutoffs \<open>t1 \<le> t2\<close>, every
  foreground voxel of the mask thresholded at \<open>t2\<close> is a foreground voxel of the mask
  thresholded at \<open>t1\<close>, and the mask at \<open>t2\<close> has no more foreground voxels than the
  mask at \<open>t1\<close>. The probabilities and the cutoffs need not lie in [0,1] for this.
\<close>

theorem threshold_monotonic:
  assumes le: "t1 \<le> t2" and wf: "well_formed probability_image"
  shows "(GetPixel (process_probability_image probability_image t2) idx = Some 1 \<longrightarrow>
          GetPixel (process_probability_image probability_image t1) idx = Some 1)
       \<and> voxel_count (process_probability_image probability_image t2)
           \<le> voxel_count (process_probability_image probability_image t1)"
proof
  obtain x y z where idx: "idx = (x, y, z)" by (cases idx) auto
  obtain n0 n1 n2 where sz: "GetSize probability_image = (n0, n1, n2)"
    by (cases "GetSize probability_image") auto
  note len = well_formed_nth [OF wf sz]
  have px: "GetPixel (process_probability_image probability_image t) idx =
      (if x < n0 \<and> y < n1 \<and> z < n2
       then Some (if t \<le> voxels probability_image ! x ! y ! z then 1 else 0) else None)" for t
    using len by (simp add: GetPixel_def process_probability_image_def map_image_def idx sz)
  show "GetPixel (process_probability_image probability_image t2) idx = Some 1 \<longrightarrow>
        GetPixel (process_probability_image probability_image t1) idx = Some 1"
    unfolding px using le by (auto split: if_splits)
  show "voxel_count (process_probability_image probability_image t2)
           \<le> voxel_count (process_probability_image probability_image t1)"
    unfolding voxel_count_def voxels_process_probability_image
    by (rule length_filter_map_mono) (use le in \<open>auto split: if_splits\<close>)
qed

lemma well_formed_example_probability: "well_formed example_probability"
  by (simp add: well_formed_def example_probability_def)

theorem threshold_monotonic_witness:
  "(0.44 :: real) \<le> 0.6 \<and> well_formed example_probability
   \<and> GetPixel (process_probability_image example_probability 0.6) (0, 1, 0) = Some 1
   \<and> GetPixel (process_probability_image example_probability 0.44) (0, 1, 0) = Some 1
   \<and> voxel_count (process_probability_image example_probability 0.6)
        \<le> voxel_count (process_probability_image example_probability 0.44)"
proof -
  have le: "(0.44 :: real) \<le> 0.6" by simp
  note inst = threshold_monotonic [OF le well_formed_example_probability, of "(0, 1, 0)"]
  have fg: "GetPixel (process_probability_image example_probability 0.6) (0, 1, 0) = Some 1"
    by (simp add: GetPixel_def process_probability_image_def map_image_def
        example_probability_def)
  show ?thesis
    using inst fg le well_formed_example_probability by simp
qed

section \<open>Properties of iterative atlas removal\<close>

lemma IAR_floor_aux:
  "min_best_atlases \<le> length atlas_set \<Longrightarrow>
   min_best_atlases \<le> length (IAR outliers min_best_atlases iterations atlas_set)"
proof (induction iterations arbitrary: atlas_set)
  case 0
  then show ?case by simp
next
  case (Suc n)
  show ?case
  proof (cases "outliers atlas_set = [] \<or>
      length (filter (\<lambda>(atlas_id, record). atlas_id \<notin> set (outliers atlas_set)) atlas_set)
        < min_best_atlases")
    case True
    then show ?thesis using Suc.prems by (auto simp: Let_def)
  next
    case False
    then show ?thesis using Suc.IH by (simp add: Let_def)
  qed
qed

lemma IAR_at_floor_aux:
  "length atlas_set = min_best_atlases \<Longrightarrow>
   IAR outliers min_best_atlases iterations atlas_set = atlas_set"
proof (induction iterations)
  case 0
  then show ?case by simp
next
  case (Suc n)
  let ?remaining =
    "filter (\<lambda>(atlas_id, record). atlas_id \<notin> set (outliers atlas_set)) atlas_set"
  show ?case
  proof (cases "outliers atlas_set = [] \<or> length ?remaining < min_best_atlases")
    case True
    then show ?thesis by (auto simp: Let_def)
  next
    case False
    then have "length ?remaining = length atlas_set"
      using Suc.prems length_filter_le [of _ atlas_set] by (simp add: le_antisym)
    then have "?remaining = atlas_set"
      by (metis (no_types, lifting) filter_True length_filter_less linorder_neq_iff)
    then show ?thesis using False Suc by (simp add: Let_def)
  qed
qed

text \<open>
  Claim C2. For every way of flagging outliers (every score distribution, statistic
  kind, fencing method and factor), every iteration cap and every minimum atlas count
  that the atlas set handed in meets, the atlas set that iterative atlas removal
  returns has at least the minimum atlas count; and when the atlas set handed in has
  exactly the minimum count, it is returned as it is.
\<close>

theorem IAR_floor:
  assumes "min_best_atlases \<le> length atlas_set"
  shows "min_best_atlases \<le> length (IAR outliers min_best_atlases iterations atlas_set)
       \<and> (length atlas_set = min_best_atlases \<longrightarrow>
            IAR outliers min_best_atlases iterations atlas_set = atlas_set)"
  using assms by (simp add: IAR_floor_aux IAR_at_floor_aux)

theorem IAR_floor_witness:
  "(4 :: nat) \<le> length [(''08'', ()), (''11'', ()), (''12'', ()), (''13'', ()), (''14'', ())]
   \<and> IAR (\<lambda>atlas_set. map fst (take 1 atlas_set)) 4 10
        [(''08'', ()), (''11'', ()), (''12'', ()), (''13'', ()), (''14'', ())]
       = [(''11'', ()), (''12'', ()), (''13'', ()), (''14'', ())]
   \<and> 4 \<le> length (IAR (\<lambda>atlas_set. map fst (take 1 atlas_set)) 4 10
        [(''08'', ()), (''11'', ()), (''12'', ()), (''13'', ()), (''14'', ())])"
proof -
  have len: "(4 :: nat) \<le> length [(''08'', ()), (''11'', ()), (''12'', ()), (''13'', ()), (''14'', ())]"
    by simp
  have run: "IAR (\<lambda>atlas_set. map fst (take 1 atlas_set)) 4 10
        [(''08'', ()), (''11'', ()), (''12'', ()), (''13'', ()), (''14'', ())]
       = [(''11'', ()), (''12'', ()), (''13'', ()), (''14'', ())]"
    by code_simp
  show ?thesis
    using IAR_floor [OF len, of "\<lambda>atlas_set. map fst (take 1 atlas_set)" 10] run len by simp
qed

section \<open>Properties of the registration stages\<close>

lemma keys_update_present:
  "map_of s a = Some r \<Longrightarrow> map fst (AList.update a v s) = map fst s"
  by (simp add: update_keys map_of_eq_None_iff [symmetric])

lemma map_of_setitem2:
  "setitem2 s a st d = Inr s' \<Longrightarrow>
   \<exists>r. map_of s a = Some r \<and> map_of s' = (map_of s)(a \<mapsto> AList.update st d r)
     \<and> map fst s' = map fst s"
  by (auto simp: setitem2_def update_conv' keys_update_present split: option.splits)

lemma map_of_setitem3:
  "setitem3 s a st k v = Inr s' \<Longrightarrow>
   \<exists>r d. map_of s a = Some r \<and> map_of r st = Some d
     \<and> map_of s' = (map_of s)(a \<mapsto> AList.update st (AList.update k v d) r)
     \<and> map fst s' = map fst s"
  by (auto simp: setitem3_def update_conv' keys_update_present split: option.splits)

lemma getitem3_Inr:
  "getitem3 s a st k = Inr v \<longleftrightarrow>
   (\<exists>r d. map_of s a = Some r \<and> map_of r st = Some d \<and> map_of d k = Some v)"
  by (auto simp: getitem3_def split: option.splits)

lemma rigid_structures_scheme:
  "rigid_structures c img_crop initial_tfm atlas_id structs atlas_set =
   propagate_structures (\<lambda>i. transform_propagation c img_crop i initial_tfm)
     ''Original'' ''RIR'' atlas_id structs atlas_set"
  by (induction structs arbitrary: atlas_set) (auto split: sum.splits)

lemma deformable_structures_scheme:
  "deformable_structures c deform_field atlas_id structs atlas_set =
   propagate_structures (\<lambda>i. apply_field c i deform_field)
     ''RIR'' ''DIR'' atlas_id structs atlas_set"
  by (induction structs arbitrary: atlas_set) (auto split: sum.splits)

lemma rigid_loop_scheme:
  "rigid_loop c img_crop guide_structure structs ids atlas_set =
   for_each (rigid_atlas c img_crop guide_structure structs) ids atlas_set"
  by (induction ids arbitrary: atlas_set) (auto split: sum.splits)

lemma deformable_loop_scheme:
  "deformable_loop c img_crop structs ids atlas_set =
   for_each (deformable_atlas c img_crop structs) ids atlas_set"
  by (induction ids arbitrary: atlas_set) (auto split: sum.splits)

lemma propagate_structures_Inr:
  assumes "propagate_structures f src dst a ks s = Inr s'" and "src \<noteq> dst"
    and "map_of s a = Some r" and "map_of r dst = Some d"
  shows "\<exists>r' d'. map_of s' = (map_of s)(a \<mapsto> r') \<and> map fst s' = map fst s \<and>
      (\<forall>st. st \<noteq> dst \<longrightarrow> map_of r' st = map_of r st) \<and> map_of r' dst = Some d' \<and>
      (\<forall>k. k \<notin> set ks \<longrightarrow> map_of d' k = map_of d k) \<and>
      (\<forall>k \<in> set ks. \<exists>inputs i p. map_of r src = Some inputs \<and> map_of inputs k = Some i \<and>
          map_of d' k = Some p \<and> f i = Inr p)"
  using assms
proof (induction ks arbitrary: s r d)
  case Nil
  then have "s' = s" by simp
  moreover have "map_of s = (map_of s)(a \<mapsto> r)"
    using Nil.prems(3) by (simp add: fun_upd_idem)
  ultimately have "map_of s' = (map_of s)(a \<mapsto> r) \<and> map fst s' = map fst s \<and>
      (\<forall>st. st \<noteq> dst \<longrightarrow> map_of r st = map_of r st) \<and> map_of r dst = Some d \<and>
      (\<forall>k. k \<notin> set [] \<longrightarrow> map_of d k = map_of d k) \<and>
      (\<forall>k \<in> set []. \<exists>inputs i p. map_of r src = Some inputs \<and> map_of inputs k = Some i \<and>
          map_of d k = Some p \<and> f i = Inr p)"
    using Nil.prems by simp
  then show ?case by blast
next
  case (Cons k ks)
  from Cons.prems(1) obtain i p s1 where
    get: "getitem3 s a src k = Inr i" and app: "f i = Inr p"
    and set1: "setitem3 s a dst k p = Inr s1"
    and rest: "propagate_structures f src dst a ks s1 = Inr s'"
    by (auto split: sum.splits)
  let ?d1 = "AList.update k p d"
  let ?r1 = "AList.update dst ?d1 r"
  from map_of_setitem3 [OF set1] Cons.prems(3,4)
  have s1: "map_of s1 = (map_of s)(a \<mapsto> ?r1)" and keys1: "map fst s1 = map fst s"
    by auto
  have a1: "map_of s1 a = Some ?r1" by (simp add: s1)
  have dst1: "map_of ?r1 dst = Some ?d1" by (simp add: update_conv')
  have other1: "map_of ?r1 st = map_of r st" if "st \<noteq> dst" for st
    using that by (simp add: update_conv')
  from get Cons.prems(3) obtain inputs where
    inputs: "map_of r src = Some inputs" "map_of inputs k = Some i"
    by (auto simp: getitem3_Inr)
  from Cons.IH [OF rest Cons.prems(2) a1 dst1] obtain r' d' where
    s': "map_of s' = (map_of s1)(a \<mapsto> r')" and keys': "map fst s' = map fst s1"
    and other': "\<forall>st. st \<noteq> dst \<longrightarrow> map_of r' st = map_of ?r1 st"
    and dst': "map_of r' dst = Some d'"
    and frame': "\<forall>k'. k' \<notin> set ks \<longrightarrow> map_of d' k' = map_of ?d1 k'"
    and done': "\<forall>k' \<in> set ks. \<exists>inputs i p. map_of ?r1 src = Some inputs \<and>
          map_of inputs k' = Some i \<and> map_of d' k' = Some p \<and> f i = Inr p"
    by blast
  have "map_of s' = (map_of s)(a \<mapsto> r')" by (simp add: s' s1)
  moreover have "map fst s' = map fst s" by (simp add: keys' keys1)
  moreover have "\<forall>st. st \<noteq> dst \<longrightarrow> map_of r' st = map_of r st"
    using other' other1 by simp
  moreover have "\<forall>k'. k' \<notin> set (k # ks) \<longrightarrow> map_of d' k' = map_of d k'"
    using frame' by (simp add: update_conv')
  moreover have "\<forall>k' \<in> set (k # ks). \<exists>inputs i p. map_of r src = Some inputs \<and>
          map_of inputs k' = Some i \<and> map_of d' k' = Some p \<and> f i = Inr p"
  proof
    fix k' assume k': "k' \<in> set (k # ks)"
    show "\<exists>inputs i p. map_of r src = Some inputs \<and>
          map_of inputs k' = Some i \<and> map_of d' k' = Some p \<and> f i = Inr p"
    proof (cases "k' \<in> set ks")
      case True
      with done' other1 [OF Cons.prems(2)] show ?thesis by simp
    next
      case False
      with k' have "k' = k" by simp
      moreover have "map_of d' k = Some p"
        using frame' False \<open>k' = k\<close> by (simp add: update_conv')
      ultimately show ?thesis using inputs app by simp
    qed
  qed
  ultimately show ?case using dst' by blast
qed

lemma stage_written_setitem2:
  "setitem2 s a dst d = Inr s' \<Longrightarrow> stage_written dst a s s'"
proof -
  assume "setitem2 s a dst d = Inr s'"
  from map_of_setitem2 [OF this] obtain r where
    r: "map_of s a = Some r" "map_of s' = (map_of s)(a \<mapsto> AList.update dst d r)"
      "map fst s' = map fst s" by blast
  have "\<forall>st. st \<noteq> dst \<longrightarrow> map_of (AList.update dst d r) st = map_of r st"
    by (simp add: update_conv')
  with r show ?thesis unfolding stage_written_def by blast
qed

lemma stage_written_setitem3:
  "setitem3 s a dst k v = Inr s' \<Longrightarrow> stage_written dst a s s'"
proof -
  assume "setitem3 s a dst k v = Inr s'"
  from map_of_setitem3 [OF this] obtain r d where
    r: "map_of s a = Some r"
      "map_of s' = (map_of s)(a \<mapsto> AList.update dst (AList.update k v d) r)"
      "map fst s' = map fst s" by blast
  have "\<forall>st. st \<noteq> dst \<longrightarrow> map_of (AList.update dst (AList.update k v d) r) st = map_of r st"
    by (simp add: update_conv')
  with r show ?thesis unfolding stage_written_def by blast
qed

lemma stage_written_trans:
  assumes "stage_written dst a s s1" and "stage_written dst a s1 s2"
  shows "stage_written dst a s s2"
proof -
  from assms(1) obtain r r1 where
    1: "map_of s a = Some r" "map_of s1 = (map_of s)(a \<mapsto> r1)" "map fst s1 = map fst s"
      "\<forall>st. st \<noteq> dst \<longrightarrow> map_of r1 st = map_of r st"
    unfolding stage_written_def by blast
  from assms(2) obtain r1' r2 where
    2: "map_of s1 a = Some r1'" "map_of s2 = (map_of s1)(a \<mapsto> r2)" "map fst s2 = map fst s1"
      "\<forall>st. st \<noteq> dst \<longrightarrow> map_of r2 st = map_of r1' st"
    unfolding stage_written_def by blast
  have "r1' = r1" using 1(2) 2(1) by simp
  then have "map_of s2 = (map_of s)(a \<mapsto> r2)" "map fst s2 = map fst s"
    "\<forall>st. st \<noteq> dst \<longrightarrow> map_of r2 st = map_of r st"
    using 1 2 by simp_all
  with 1(1) show ?thesis unfolding stage_written_def by blast
qed

lemma stage_written_getitem3:
  "stage_written dst a s s' \<Longrightarrow> st \<noteq> dst \<Longrightarrow> getitem3 s' a st k = getitem3 s a st k"
  unfolding stage_written_def by (auto simp: getitem3_def)

lemma stage_written_other:
  "stage_written dst a s s' \<Longrightarrow> b \<noteq> a \<Longrightarrow> map_of s' b = map_of s b"
  unfolding stage_written_def by auto

lemma stage_written_keys:
  "stage_written dst a s s' \<Longrightarrow> map fst s' = map fst s"
  unfolding stage_written_def by auto

lemma getitem3_setitem3_same:
  "setitem3 s a st k v = Inr s' \<Longrightarrow> getitem3 s' a st k = Inr v"
  by (drule map_of_setitem3) (auto simp: getitem3_def update_conv')

lemma stage_written_propagate:
  assumes run: "propagate_structures f src dst a ks s = Inr s'" and ne: "src \<noteq> dst"
    and a: "map_of s a = Some r" and dst: "map_of r dst = Some d"
  shows "stage_written dst a s s'"
proof -
  from propagate_structures_Inr [OF run ne a dst] obtain r' where
    "map_of s' = (map_of s)(a \<mapsto> r')" "map fst s' = map fst s"
    "\<forall>st. st \<noteq> dst \<longrightarrow> map_of r' st = map_of r st"
    by blast
  with a show ?thesis unfolding stage_written_def by blast
qed

lemma moving_structure_record:
  assumes "map_of s a = Some r" and "map_of r ''Original'' = Some originals"
  shows "moving_structure s a gs = Inr ms \<longleftrightarrow>
     (case gs of None \<Rightarrow> ms = None
      | Some name \<Rightarrow> (\<exists>v. map_of originals name = Some v \<and> ms = Some v))"
  using assms
  by (cases gs) (auto simp: moving_structure_def getitem3_def split: option.splits)

lemma rigid_atlas_Inr:
  assumes "rigid_atlas c img_crop gs ks a s = Inr s'"
  shows "stage_written ''RIR'' a s s' \<and>
     (\<exists>r'. map_of s' a = Some r' \<and> rigidly_registered c img_crop gs ks r')"
proof -
  from assms obtain s1 im ms ri tfm s2 s3 where
    w1: "setitem2 s a ''RIR'' [] = Inr s1"
    and ct: "getitem3 s1 a ''Original'' ''CT Image'' = Inr im"
    and g: "moving_structure s1 a gs = Inr ms"
    and reg: "initial_registration c img_crop im ms = Inr (ri, tfm)"
    and w2: "setitem3 s1 a ''RIR'' ''CT Image'' ri = Inr s2"
    and w3: "setitem3 s2 a ''RIR'' ''Transform'' tfm = Inr s3"
    and run: "rigid_structures c img_crop tfm a ks s3 = Inr s'"
    unfolding rigid_atlas_def by (auto split: sum.splits prod.splits)
  note run' = run [unfolded rigid_structures_scheme]
  have sw13: "stage_written ''RIR'' a s1 s3"
    using stage_written_setitem3 [OF w2] stage_written_setitem3 [OF w3]
    by (rule stage_written_trans)
  have sw3: "stage_written ''RIR'' a s s3"
    using stage_written_setitem2 [OF w1] sw13 by (rule stage_written_trans)
  from map_of_setitem3 [OF w3] obtain r3 d3 where
    r3: "map_of s3 a = Some r3" "map_of r3 ''RIR'' = Some d3"
    by (auto simp: update_conv')
  have tf3: "map_of d3 ''Transform'' = Some tfm"
    using getitem3_setitem3_same [OF w3] r3 by (auto simp: getitem3_Inr)
  have orig3: "getitem3 s3 a ''Original'' k = getitem3 s1 a ''Original'' k" for k
    using sw13 by (simp add: stage_written_getitem3)
  from ct r3 obtain originals where
    originals: "map_of r3 ''Original'' = Some originals" "map_of originals ''CT Image'' = Some im"
    unfolding orig3 [symmetric] by (auto simp: getitem3_Inr)
  have "moving_structure s3 a gs = moving_structure s1 a gs"
    unfolding moving_structure_def orig3 ..
  with g have g3: "case gs of None \<Rightarrow> ms = None
      | Some name \<Rightarrow> (\<exists>v. map_of originals name = Some v \<and> ms = Some v)"
    using moving_structure_record [OF r3(1) originals(1)] by simp
  have ne: "''Original'' \<noteq> ''RIR''" by simp
  from propagate_structures_Inr [OF run' ne r3] obtain r' d' where
    s': "map_of s' = (map_of s3)(a \<mapsto> r')"
    and other: "\<forall>st. st \<noteq> ''RIR'' \<longrightarrow> map_of r' st = map_of r3 st"
    and dst': "map_of r' ''RIR'' = Some d'"
    and frame: "\<forall>k. k \<notin> set ks \<longrightarrow> map_of d' k = map_of d3 k"
    and fin: "\<forall>k \<in> set ks. \<exists>inputs i p. map_of r3 ''Original'' = Some inputs \<and>
          map_of inputs k = Some i \<and> map_of d' k = Some p \<and>
          transform_propagation c img_crop i tfm = Inr p"
    by blast
  have o': "map_of r' ''Original'' = Some originals"
    using other originals(1) by simp
  have "\<forall>k \<in> set ks. \<exists>i p. map_of originals k = Some i \<and> map_of d' k = Some p \<and>
          transform_propagation c img_crop i tfm = Inr p"
    using fin originals(1) by auto
  moreover have "''Transform'' \<notin> set ks \<longrightarrow> map_of d' ''Transform'' = Some tfm"
    using frame tf3 by simp
  ultimately have "rigidly_registered c img_crop gs ks r'"
    unfolding rigidly_registered_def using o' dst' originals(2) g3 reg by blast
  moreover have "map_of s' a = Some r'" by (simp add: s')
  moreover have "stage_written ''RIR'' a s s'"
    using sw3 stage_written_propagate [OF run' ne r3] by (rule stage_written_trans)
  ultimately show ?thesis by blast
qed

lemma deformable_atlas_Inr:
  assumes "deformable_atlas c img_crop ks a s = Inr s'"
  shows "stage_written ''DIR'' a s s' \<and>
     (\<exists>r'. map_of s' a = Some r' \<and> deformably_registered c img_crop ks r')"
proof -
  from assms obtain s1 im di fld s2 s3 where
    w1: "setitem2 s a ''DIR'' [] = Inr s1"
    and ct: "getitem3 s1 a ''RIR'' ''CT Image'' = Inr im"
    and reg: "fast_symmetric_forces_demons_registration c img_crop im = Inr (di, fld)"
    and w2: "setitem3 s1 a ''DIR'' ''CT Image'' di = Inr s2"
    and w3: "setitem3 s2 a ''DIR'' ''Transform'' fld = Inr s3"
    and run: "deformable_structures c fld a ks s3 = Inr s'"
    unfolding deformable_atlas_def by (auto split: sum.splits prod.splits)
  note run' = run [unfolded deformable_structures_scheme]
  have sw13: "stage_written ''DIR'' a s1 s3"
    using stage_written_setitem3 [OF w2] stage_written_setitem3 [OF w3]
    by (rule stage_written_trans)
  have sw3: "stage_written ''DIR'' a s s3"
    using stage_written_setitem2 [OF w1] sw13 by (rule stage_written_trans)
  from map_of_setitem3 [OF w3] obtain r3 d3 where
    r3: "map_of s3 a = Some r3" "map_of r3 ''DIR'' = Some d3"
    by (auto simp: update_conv')
  have tf3: "map_of d3 ''Transform'' = Some fld"
    using getitem3_setitem3_same [OF w3] r3 by (auto simp: getitem3_Inr)
  have rir3: "getitem3 s3 a ''RIR'' k = getitem3 s1 a ''RIR'' k" for k
    using sw13 by (simp add: stage_written_getitem3)
  from ct r3 obtain rigids where
    rigids: "map_of r3 ''RIR'' = Some rigids" "map_of rigids ''CT Image'' = Some im"
    unfolding rir3 [symmetric] by (auto simp: getitem3_Inr)
  have ne: "''RIR'' \<noteq> ''DIR''" by simp
  from propagate_structures_Inr [OF run' ne r3] obtain r' d' where
    s': "map_of s' = (map_of s3)(a \<mapsto> r')"
    and other: "\<forall>st. st \<noteq> ''DIR'' \<longrightarrow> map_of r' st = map_of r3 st"
    and dst': "map_of r' ''DIR'' = Some d'"
    and frame: "\<forall>k. k \<notin> set ks \<longrightarrow> map_of d' k = map_of d3 k"
    and fin: "\<forall>k \<in> set ks. \<exists>inputs i p. map_of r3 ''RIR'' = Some inputs \<and>
          map_of inputs k = Some i \<and> map_of d' k = Some p \<and> apply_field c i fld = Inr p"
    by blast
  have o': "map_of r' ''RIR'' = Some rigids"
    using other rigids(1) by simp
  have "\<forall>k \<in> set ks. \<exists>i p. map_of rigids k = Some i \<and> map_of d' k = Some p \<and>
          apply_field c i fld = Inr p"
    using fin rigids(1) by auto
  moreover have "''Transform'' \<notin> set ks \<longrightarrow> map_of d' ''Transform'' = Some fld"
    using frame tf3 by simp
  ultimately have "deformably_registered c img_crop ks r'"
    unfolding deformably_registered_def using o' dst' rigids(2) reg by blast
  moreover have "map_of s' a = Some r'" by (simp add: s')
  moreover have "stage_written ''DIR'' a s s'"
    using sw3 stage_written_propagate [OF run' ne r3] by (rule stage_written_trans)
  ultimately show ?thesis by blast
qed

lemma for_each_Inr:
  assumes run: "for_each body ids s = Inr s'"
    and step: "\<And>a s s'. body a s = Inr s' \<Longrightarrow>
        stage_written dst a s s' \<and> (\<exists>r'. map_of s' a = Some r' \<and> post r')"
  shows "map fst s' = map fst s \<and>
     (\<forall>a \<in> set ids. \<exists>r'. map_of s' a = Some r' \<and> post r') \<and>
     (\<forall>a. a \<notin> set ids \<longrightarrow> map_of s' a = map_of s a) \<and>
     (\<forall>a r'. map_of s' a = Some r' \<longrightarrow>
        (\<exists>r. map_of s a = Some r \<and> (\<forall>st. st \<noteq> dst \<longrightarrow> map_of r' st = map_of r st)))"
  using run
proof (induction ids arbitrary: s)
  case Nil
  then show ?case by simp
next
  case (Cons a ids)
  from Cons.prems obtain s1 where b: "body a s = Inr s1" and rest: "for_each body ids s1 = Inr s'"
    by (auto split: sum.splits)
  from step [OF b] obtain r1 where sw: "stage_written dst a s s1"
    and r1: "map_of s1 a = Some r1" "post r1" by blast
  from Cons.IH [OF rest] have keys: "map fst s' = map fst s1"
    and posts: "\<forall>b \<in> set ids. \<exists>r'. map_of s' b = Some r' \<and> post r'"
    and frame: "\<forall>b. b \<notin> set ids \<longrightarrow> map_of s' b = map_of s1 b"
    and keep: "\<forall>b r'. map_of s' b = Some r' \<longrightarrow>
        (\<exists>r. map_of s1 b = Some r \<and> (\<forall>st. st \<noteq> dst \<longrightarrow> map_of r' st = map_of r st))"
    by blast+
  have "map fst s' = map fst s"
    using keys stage_written_keys [OF sw] by simp
  moreover have "\<forall>b \<in> set (a # ids). \<exists>r'. map_of s' b = Some r' \<and> post r'"
    using posts frame r1 by (metis set_ConsD)
  moreover have "\<forall>b. b \<notin> set (a # ids) \<longrightarrow> map_of s' b = map_of s b"
    using frame stage_written_other [OF sw] by simp
  moreover have "\<forall>b r'. map_of s' b = Some r' \<longrightarrow>
        (\<exists>r. map_of s b = Some r \<and> (\<forall>st. st \<noteq> dst \<longrightarrow> map_of r' st = map_of r st))"
  proof (intro allI impI)
    fix b r' assume "map_of s' b = Some r'"
    with keep obtain r1' where r1': "map_of s1 b = Some r1'"
      "\<forall>st. st \<noteq> dst \<longrightarrow> map_of r' st = map_of r1' st" by blast
    show "\<exists>r. map_of s b = Some r \<and> (\<forall>st. st \<noteq> dst \<longrightarrow> map_of r' st = map_of r st)"
    proof (cases "b = a")
      case True
      from sw obtain r r1'' where "map_of s a = Some r" "map_of s1 = (map_of s)(a \<mapsto> r1'')"
        "\<forall>st. st \<noteq> dst \<longrightarrow> map_of r1'' st = map_of r st"
        unfolding stage_written_def by blast
      with r1' True show ?thesis by auto
    next
      case False
      with r1' stage_written_other [OF sw False] show ?thesis by auto
    qed
  qed
  ultimately show ?case by blast
qed

lemma for_each_post:
  assumes "for_each body ids s = Inr s'" and "a \<in> set ids"
    and "\<And>a s s'. body a s = Inr s' \<Longrightarrow>
        stage_written dst a s s' \<and> (\<exists>r'. map_of s' a = Some r' \<and> post r')"
  shows "\<exists>r'. map_of s' a = Some r' \<and> post r'"
proof -
  have "map fst s' = map fst s \<and>
     (\<forall>a \<in> set ids. \<exists>r'. map_of s' a = Some r' \<and> post r') \<and>
     (\<forall>a. a \<notin> set ids \<longrightarrow> map_of s' a = map_of s a) \<and>
     (\<forall>a r'. map_of s' a = Some r' \<longrightarrow>
        (\<exists>r. map_of s a = Some r \<and> (\<forall>st. st \<noteq> dst \<longrightarrow> map_of r' st = map_of r st)))"
    by (rule for_each_Inr [OF assms(1)]) (rule assms(3))
  then have "\<forall>a \<in> set ids. \<exists>r'. map_of s' a = Some r' \<and> post r'"
    by (elim conjE)
  with assms(2) show ?thesis by blast
qed

lemma for_each_keep:
  assumes "for_each body ids s = Inr s'" and "map_of s' a = Some r'"
    and "\<And>a s s'. body a s = Inr s' \<Longrightarrow>
        stage_written dst a s s' \<and> (\<exists>r'. map_of s' a = Some r' \<and> post r')"
  shows "\<exists>r. map_of s a = Some r \<and> (\<forall>st. st \<noteq> dst \<longrightarrow> map_of r' st = map_of r st)"
proof -
  have "map fst s' = map fst s \<and>
     (\<forall>a \<in> set ids. \<exists>r'. map_of s' a = Some r' \<and> post r') \<and>
     (\<forall>a. a \<notin> set ids \<longrightarrow> map_of s' a = map_of s a) \<and>
     (\<forall>a r'. map_of s' a = Some r' \<longrightarrow>
        (\<exists>r. map_of s a = Some r \<and> (\<forall>st. st \<noteq> dst \<longrightarrow> map_of r' st = map_of r st)))"
    by (rule for_each_Inr [OF assms(1)]) (rule assms(3))
  then have "\<forall>a r'. map_of s' a = Some r' \<longrightarrow>
        (\<exists>r. map_of s a = Some r \<and> (\<forall>st. st \<noteq> dst \<longrightarrow> map_of r' st = map_of r st))"
    by (elim conjE)
  with assms(2) show ?thesis by blast
qed

lemma for_each_append:
  "for_each body (xs @ ys) s =
     (case for_each body xs s of Inl e \<Rightarrow> Inl e | Inr s1 \<Rightarrow> for_each body ys s1)"
  by (induction xs arbitrary: s) (auto split: sum.splits)

lemma rigid_atlas_failure:
  assumes ct: "getitem3 s a ''Original'' ''CT Image'' = Inr atlas_image"
    and ms: "moving_structure s a gs = Inr atlas_struct"
    and fail: "initial_registration c img_crop atlas_image atlas_struct = Inl e"
  shows "rigid_atlas c img_crop gs structs a s = Inl e"
proof -
  from ct obtain r where "map_of s a = Some r" by (auto simp: getitem3_Inr)
  then obtain s1 where w1: "setitem2 s a ''RIR'' [] = Inr s1"
    by (simp add: setitem2_def)
  note sw = stage_written_setitem2 [OF w1]
  have same: "getitem3 s1 a ''Original'' k = getitem3 s a ''Original'' k" for k
    using sw by (simp add: stage_written_getitem3)
  have "moving_structure s1 a gs = moving_structure s a gs"
    unfolding moving_structure_def same ..
  then have "getitem3 s1 a ''Original'' ''CT Image'' = Inr atlas_image"
    and "moving_structure s1 a gs = Inr atlas_struct"
    using ct ms same by simp_all
  then show ?thesis using w1 fail by (simp add: rigid_atlas_def)
qed

lemma deformable_atlas_failure:
  assumes ct: "getitem3 s a ''RIR'' ''CT Image'' = Inr atlas_image"
    and fail: "fast_symmetric_forces_demons_registration c img_crop atlas_image = Inl e"
  shows "deformable_atlas c img_crop structs a s = Inl e"
proof -
  from ct obtain r where "map_of s a = Some r" by (auto simp: getitem3_Inr)
  then obtain s1 where w1: "setitem2 s a ''DIR'' [] = Inr s1"
    by (simp add: setitem2_def)
  note sw = stage_written_setitem2 [OF w1]
  have "getitem3 s1 a ''RIR'' ''CT Image'' = Inr atlas_image"
    using sw ct by (simp add: stage_written_getitem3)
  then show ?thesis using w1 fail by (simp add: deformable_atlas_def)
qed

text \<open>
  Claim C6, as amended. When the rigid registration collaborator raises for one atlas,
  the rigid loop ends with that exception, whatever atlases come after it in the list;
  the same holds for the deformable registration collaborator and the deformable loop.
  The exception is not caught: the loop does not go on to the remaining atlases, and
  no atlas set is produced.
\<close>

theorem registration_failure_propagates:
  "(rigid_loop c img_crop guide_structure atlas_structures before atlas_set = Inr atlas_set1 \<and>
    getitem3 atlas_set1 atlas_id ''Original'' ''CT Image'' = Inr atlas_image \<and>
    moving_structure atlas_set1 atlas_id guide_structure = Inr atlas_struct \<and>
    initial_registration c img_crop atlas_image atlas_struct = Inl e
    \<longrightarrow> rigid_loop c img_crop guide_structure atlas_structures (before @ atlas_id # after)
          atlas_set = Inl e)
 \<and> (deformable_loop c img_crop atlas_structures before atlas_set = Inr atlas_set1 \<and>
    getitem3 atlas_set1 atlas_id ''RIR'' ''CT Image'' = Inr atlas_image \<and>
    fast_symmetric_forces_demons_registration c img_crop atlas_image = Inl e
    \<longrightarrow> deformable_loop c img_crop atlas_structures (before @ atlas_id # after) atlas_set
          = Inl e)"
  by (simp add: rigid_loop_scheme deformable_loop_scheme for_each_append
      rigid_atlas_failure deformable_atlas_failure)

theorem registration_failure_propagates_witness:
  "rigid_loop failing_collaborators ''target'' None [''WHOLEHEART''] [] example_read_11
     = Inr example_read_11
   \<and> getitem3 example_read_11 ''11'' ''Original'' ''CT Image''
     = Inr ''/atlas/Case_11/Images/Case_11_CROP.nii.gz''
   \<and> moving_structure example_read_11 ''11'' None = Inr None
   \<and> initial_registration failing_collaborators ''target''
       ''/atlas/Case_11/Images/Case_11_CROP.nii.gz'' None
     = Inl (Failure ''rigid registration failed'')
   \<and> rigid_loop failing_collaborators ''target'' None [''WHOLEHEART''] ([] @ ''11'' # [''12''])
       example_read_11 = Inl (Failure ''rigid registration failed'')
   \<and> deformable_loop failing_collaborators ''target'' [''WHOLEHEART''] [] example_rigid_12
     = Inr example_rigid_12
   \<and> getitem3 example_rigid_12 ''12'' ''RIR'' ''CT Image''
     = Inr ''rigid:/atlas/Case_12/Images/Case_12_CROP.nii.gz''
   \<and> fast_symmetric_forces_demons_registration failing_collaborators ''target''
       ''rigid:/atlas/Case_12/Images/Case_12_CROP.nii.gz''
     = Inl (Failure ''demons registration failed'')
   \<and> deformable_loop failing_collaborators ''target'' [''WHOLEHEART''] ([] @ ''12'' # [''13''])
       example_rigid_12 = Inl (Failure ''demons registration failed'')"
proof -
  have r1: "rigid_loop failing_collaborators ''target'' None [''WHOLEHEART''] [] example_read_11
     = Inr example_read_11" by simp
  have r2: "getitem3 example_read_11 ''11'' ''Original'' ''CT Image''
     = Inr ''/atlas/Case_11/Images/Case_11_CROP.nii.gz''"
    by (simp add: getitem3_def example_read_11_def)
  have r3: "moving_structure example_read_11 ''11'' None = Inr None"
    by (simp add: moving_structure_def)
  have r4: "initial_registration failing_collaborators ''target''
       ''/atlas/Case_11/Images/Case_11_CROP.nii.gz'' None
     = Inl (Failure ''rigid registration failed'')"
    by (simp add: failing_collaborators_def)
  have d1: "deformable_loop failing_collaborators ''target'' [''WHOLEHEART''] [] example_rigid_12
     = Inr example_rigid_12" by simp
  have d2: "getitem3 example_rigid_12 ''12'' ''RIR'' ''CT Image''
     = Inr ''rigid:/atlas/Case_12/Images/Case_12_CROP.nii.gz''"
    by (simp add: getitem3_def example_rigid_12_def)
  have d3: "fast_symmetric_forces_demons_registration failing_collaborators ''target''
       ''rigid:/atlas/Case_12/Images/Case_12_CROP.nii.gz''
     = Inl (Failure ''demons registration failed'')"
    by (simp add: failing_collaborators_def)
  note inst_rigid = registration_failure_propagates [THEN conjunct1, rule_format,
      OF conjI [OF r1 conjI [OF r2 conjI [OF r3 r4]]], of "[''12'']"]
  note inst_deformable = registration_failure_propagates [THEN conjunct2, rule_format,
      OF conjI [OF d1 conjI [OF d2 d3]], of "[''13'']"]
  from inst_rigid inst_deformable r1 r2 r3 r4 d1 d2 d3 show ?thesis
    by (intro conjI)
qed

text \<open>
  Claim C6 as stated fails: with three atlases, of which the second cannot be rigidly
  registered, the run does not continue with the other two; it ends with the exception
  of the second, and there is no atlas set to fuse from.
\<close>

theorem registration_failure_aborts_run:
  "register_atlases failing_collaborators ''/atlas'' [''08'', ''11'', ''12'']
     [''WHOLEHEART''] ''target'' None = Inl (Failure ''rigid registration failed'')
   \<and> \<not> (\<exists>atlas_set. register_atlases failing_collaborators ''/atlas'' [''08'', ''11'', ''12'']
     [''WHOLEHEART''] ''target'' None = Inr atlas_set)"
proof -
  have "register_atlases failing_collaborators ''/atlas'' [''08'', ''11'', ''12'']
     [''WHOLEHEART''] ''target'' None = Inl (Failure ''rigid registration failed'')"
    by code_simp
  then show ?thesis by simp
qed

text \<open>
  Claim C9. When the three loops (reading, rigid registration, deformable registration)
  complete, every atlas of the atlas id list and every configured structure has an
  entry in the stages Original, RIR and DIR of the atlas's record, and each later entry
  has been propagated through its stage's transform: the RIR entry is what
  \<open>transform_propagation\<close> made of the Original entry with the transform
  \<open>initial_tfm\<close> that the rigid registration of the atlas's original CT image returned,
  and the DIR entry is what \<open>apply_field\<close> made of the RIR entry with the field
  \<open>deform_field\<close> that the deformable registration of the atlas's RIR CT image
  returned. Unless a configured structure is itself named \<^verbatim>\<open>'Transform'\<close>, these are
  the transforms stored under \<^verbatim>\<open>'Transform'\<close> in the RIR and the DIR stage.
\<close>

theorem structures_propagated:
  assumes run: "register_atlases c atlas_path atlas_id_list atlas_structures img_crop
                  guide_structure = Inr atlas_set"
    and a: "atlas_id \<in> set atlas_id_list" and k: "struct \<in> set atlas_structures"
  shows "\<exists>original rigid deformed atlas_image atlas_struct rigid_image initial_tfm
        rigid_ct deform_image deform_field.
     getitem3 atlas_set atlas_id ''Original'' struct = Inr original \<and>
     getitem3 atlas_set atlas_id ''RIR'' struct = Inr rigid \<and>
     getitem3 atlas_set atlas_id ''DIR'' struct = Inr deformed \<and>
     getitem3 atlas_set atlas_id ''Original'' ''CT Image'' = Inr atlas_image \<and>
     moving_structure atlas_set atlas_id guide_structure = Inr atlas_struct \<and>
     initial_registration c img_crop atlas_image atlas_struct = Inr (rigid_image, initial_tfm) \<and>
     transform_propagation c img_crop original initial_tfm = Inr rigid \<and>
     getitem3 atlas_set atlas_id ''RIR'' ''CT Image'' = Inr rigid_ct \<and>
     fast_symmetric_forces_demons_registration c img_crop rigid_ct
       = Inr (deform_image, deform_field) \<and>
     apply_field c rigid deform_field = Inr deformed \<and>
     (''Transform'' \<notin> set atlas_structures \<longrightarrow>
        getitem3 atlas_set atlas_id ''RIR'' ''Transform'' = Inr initial_tfm \<and>
        getitem3 atlas_set atlas_id ''DIR'' ''Transform'' = Inr deform_field)"
proof -
  from run obtain s1 s2 where
    rig: "rigid_loop c img_crop guide_structure atlas_structures atlas_id_list s1 = Inr s2"
    and def: "deformable_loop c img_crop atlas_structures atlas_id_list s2 = Inr atlas_set"
    unfolding register_atlases_def by (auto split: sum.splits)
  have "\<exists>r'. map_of s2 atlas_id = Some r' \<and>
      rigidly_registered c img_crop guide_structure atlas_structures r'"
  proof (rule for_each_post [where dst = "''RIR''"])
    show "for_each (rigid_atlas c img_crop guide_structure atlas_structures) atlas_id_list s1
            = Inr s2"
      by (rule rig [unfolded rigid_loop_scheme])
    show "atlas_id \<in> set atlas_id_list" by (rule a)
  qed (rule rigid_atlas_Inr)
  then obtain r2 where r2: "map_of s2 atlas_id = Some r2"
    "rigidly_registered c img_crop guide_structure atlas_structures r2"
    by blast
  note def' = def [unfolded deformable_loop_scheme]
  have "\<exists>r'. map_of atlas_set atlas_id = Some r' \<and>
      deformably_registered c img_crop atlas_structures r'"
  proof (rule for_each_post [where dst = "''DIR''"])
    show "for_each (deformable_atlas c img_crop atlas_structures) atlas_id_list s2
            = Inr atlas_set"
      by (rule def')
    show "atlas_id \<in> set atlas_id_list" by (rule a)
  qed (rule deformable_atlas_Inr)
  then obtain r3 where r3: "map_of atlas_set atlas_id = Some r3"
    "deformably_registered c img_crop atlas_structures r3"
    by blast
  have keep: "\<exists>r. map_of s2 atlas_id = Some r \<and>
        (\<forall>st. st \<noteq> ''DIR'' \<longrightarrow> map_of r3 st = map_of r st)"
  proof (rule for_each_keep [where post = "deformably_registered c img_crop atlas_structures"])
    show "for_each (deformable_atlas c img_crop atlas_structures) atlas_id_list s2
            = Inr atlas_set"
      by (rule def')
    show "map_of atlas_set atlas_id = Some r3" by (rule r3(1))
  qed (rule deformable_atlas_Inr)
  from keep r2 have same: "map_of r3 ''Original'' = map_of r2 ''Original''"
    "map_of r3 ''RIR'' = map_of r2 ''RIR''" by auto
  from r2(2) obtain originals rigids atlas_image atlas_struct rigid_image initial_tfm where
    o: "map_of r2 ''Original'' = Some originals" "map_of r2 ''RIR'' = Some rigids"
      "map_of originals ''CT Image'' = Some atlas_image"
    and og: "case guide_structure of None \<Rightarrow> atlas_struct = None
         | Some name \<Rightarrow> (\<exists>v. map_of originals name = Some v \<and> atlas_struct = Some v)"
    and oreg: "initial_registration c img_crop atlas_image atlas_struct
         = Inr (rigid_image, initial_tfm)"
    and otf: "''Transform'' \<notin> set atlas_structures \<longrightarrow>
         map_of rigids ''Transform'' = Some initial_tfm"
    and oall: "\<forall>struct \<in> set atlas_structures. \<exists>i p. map_of originals struct = Some i \<and>
            map_of rigids struct = Some p \<and>
            transform_propagation c img_crop i initial_tfm = Inr p"
    unfolding rigidly_registered_def by blast
  from oall k obtain original rigid where
    ok: "map_of originals struct = Some original" "map_of rigids struct = Some rigid"
      "transform_propagation c img_crop original initial_tfm = Inr rigid"
    by blast
  from r3(2) obtain rigids' deformeds rigid_ct deform_image deform_field where
    d: "map_of r3 ''RIR'' = Some rigids'" "map_of r3 ''DIR'' = Some deformeds"
      "map_of rigids' ''CT Image'' = Some rigid_ct"
    and dreg: "fast_symmetric_forces_demons_registration c img_crop rigid_ct
         = Inr (deform_image, deform_field)"
    and dtf: "''Transform'' \<notin> set atlas_structures \<longrightarrow>
         map_of deformeds ''Transform'' = Some deform_field"
    and dall: "\<forall>struct \<in> set atlas_structures. \<exists>i p. map_of rigids' struct = Some i \<and>
            map_of deformeds struct = Some p \<and> apply_field c i deform_field = Inr p"
    unfolding deformably_registered_def by blast
  have rr: "rigids' = rigids" using o(2) d(1) same(2) by simp
  from dall k obtain rigid' deformed where
    dk: "map_of rigids' struct = Some rigid'" "map_of deformeds struct = Some deformed"
      "apply_field c rigid' deform_field = Inr deformed"
    by blast
  have "rigid' = rigid" using dk(1) ok(2) rr by simp
  have o3: "map_of r3 ''Original'' = Some originals" using same(1) o(1) by simp
  have "getitem3 atlas_set atlas_id ''Original'' struct = Inr original"
    using r3(1) o3 ok(1) by (simp add: getitem3_def)
  moreover have "getitem3 atlas_set atlas_id ''RIR'' struct = Inr rigid"
    using r3(1) d(1) rr ok(2) by (simp add: getitem3_def)
  moreover have "getitem3 atlas_set atlas_id ''DIR'' struct = Inr deformed"
    using r3(1) d(2) dk(2) by (simp add: getitem3_def)
  moreover have "getitem3 atlas_set atlas_id ''Original'' ''CT Image'' = Inr atlas_image"
    using r3(1) o3 o(3) by (simp add: getitem3_def)
  moreover have "moving_structure atlas_set atlas_id guide_structure = Inr atlas_struct"
    using moving_structure_record [OF r3(1) o3] og by simp
  moreover note oreg ok(3)
  moreover have "getitem3 atlas_set atlas_id ''RIR'' ''CT Image'' = Inr rigid_ct"
    using r3(1) d(1,3) by (simp add: getitem3_def)
  moreover note dreg
  moreover have "apply_field c rigid deform_field = Inr deformed"
    using dk(3) \<open>rigid' = rigid\<close> by simp
  moreover have "''Transform'' \<notin> set atlas_structures \<longrightarrow>
        getitem3 atlas_set atlas_id ''RIR'' ''Transform'' = Inr initial_tfm \<and>
        getitem3 atlas_set atlas_id ''DIR'' ''Transform'' = Inr deform_field"
    using r3(1) d(1,2) rr otf dtf by (simp add: getitem3_def)
  ultimately show ?thesis by blast
qed

theorem structures_propagated_witness:
  "register_atlases example_collaborators ''/atlas'' [''08'', ''11''] [''WHOLEHEART'']
      ''target'' None = Inr example_registered
   \<and> ''11'' \<in> set [''08'', ''11''] \<and> ''WHOLEHEART'' \<in> set [''WHOLEHEART'']
   \<and> ''Transform'' \<notin> set [''WHOLEHEART'']
   \<and> getitem3 example_registered ''11'' ''RIR'' ''Transform''
       = Inr ''tfm:/atlas/Case_11/Images/Case_11_CROP.nii.gz''
   \<and> getitem3 example_registered ''11'' ''RIR'' ''WHOLEHEART''
       = Inr (''/atlas/Case_11/Structures/Case_11_WHOLEHEART_CROP.nii.gz''
              @ ''|tfm:/atlas/Case_11/Images/Case_11_CROP.nii.gz'')
   \<and> (\<exists>original rigid deformed atlas_image atlas_struct rigid_image initial_tfm
        rigid_ct deform_image deform_field.
        getitem3 example_registered ''11'' ''Original'' ''WHOLEHEART'' = Inr original \<and>
        getitem3 example_registered ''11'' ''RIR'' ''WHOLEHEART'' = Inr rigid \<and>
        getitem3 example_registered ''11'' ''DIR'' ''WHOLEHEART'' = Inr deformed \<and>
        getitem3 example_registered ''11'' ''Original'' ''CT Image'' = Inr atlas_image \<and>
        moving_structure example_registered ''11'' None = Inr atlas_struct \<and>
        initial_registration example_collaborators ''target'' atlas_image atlas_struct
          = Inr (rigid_image, initial_tfm) \<and>
        transform_propagation example_collaborators ''target'' original initial_tfm = Inr rigid \<and>
        getitem3 example_registered ''11'' ''RIR'' ''CT Image'' = Inr rigid_ct \<and>
        fast_symmetric_forces_demons_registration example_collaborators ''target'' rigid_ct
          = Inr (deform_image, deform_field) \<and>
        apply_field example_collaborators rigid deform_field = Inr deformed \<and>
        getitem3 example_registered ''11'' ''RIR'' ''Transform'' = Inr initial_tfm \<and>
        getitem3 example_registered ''11'' ''DIR'' ''Transform'' = Inr deform_field)"
proof -
  have run: "register_atlases example_collaborators ''/atlas'' [''08'', ''11''] [''WHOLEHEART'']
      ''target'' None = Inr example_registered"
    by code_simp
  have a: "''11'' \<in> set [''08'', ''11'']" and k: "''WHOLEHEART'' \<in> set [''WHOLEHEART'']"
    and nt: "''Transform'' \<notin> set [''WHOLEHEART'']"
    by simp_all
  from structures_propagated [OF run a k] nt
  have "\<exists>original rigid deformed atlas_image atlas_struct rigid_image initial_tfm
        rigid_ct deform_image deform_field.
        getitem3 example_registered ''11'' ''Original'' ''WHOLEHEART'' = Inr original \<and>
        getitem3 example_registered ''11'' ''RIR'' ''WHOLEHEART'' = Inr rigid \<and>
        getitem3 example_registered ''11'' ''DIR'' ''WHOLEHEART'' = Inr deformed \<and>
        getitem3 example_registered ''11'' ''Original'' ''CT Image'' = Inr atlas_image \<and>
        moving_structure example_registered ''11'' None = Inr atlas_struct \<and>
        initial_registration example_collaborators ''target'' atlas_image atlas_struct
          = Inr (rigid_image, initial_tfm) \<and>
        transform_propagation example_collaborators ''target'' original initial_tfm = Inr rigid \<and>
        getitem3 example_registered ''11'' ''RIR'' ''CT Image'' = Inr rigid_ct \<and>
        fast_symmetric_forces_demons_registration example_collaborators ''target'' rigid_ct
          = Inr (deform_image, deform_field) \<and>
        apply_field example_collaborators rigid deform_field = Inr deformed \<and>
        getitem3 example_registered ''11'' ''RIR'' ''Transform'' = Inr initial_tfm \<and>
        getitem3 example_registered ''11'' ''DIR'' ''Transform'' = Inr deform_field"
    by simp
  moreover have "getitem3 example_registered ''11'' ''RIR'' ''Transform''
       = Inr ''tfm:/atlas/Case_11/Images/Case_11_CROP.nii.gz''"
    by code_simp
  moreover have "getitem3 example_registered ''11'' ''RIR'' ''WHOLEHEART''
       = Inr (''/atlas/Case_11/Structures/Case_11_WHOLEHEART_CROP.nii.gz''
              @ ''|tfm:/atlas/Case_11/Images/Case_11_CROP.nii.gz'')"
    by code_simp
  ultimately show ?thesis using run a k nt by (intro conjI)
qed

section \<open>Properties of step 6\<close>

lemma template_write_structure [simp]:
  "template (write_structure mask_file_of crop structure_name binary_struct st) = template st"
  by (simp add: write_structure_def Let_def)

lemma written_write_structure:
  "written (write_structure mask_file_of crop structure_name binary_struct st) =
     written st @ [(mask_file_of structure_name, paste_img (template st) binary_struct crop)]"
  by (simp add: write_structure_def Let_def)

lemma vote_loop_Inr:
  assumes "vote_loop threshold_image optimalThreshold combined_label_dict mask_file_of crop
             names st = Inr st'"
  shows "template st' = template st \<and>
     (\<exists>ws. written st' = written st @ ws \<and>
        list_all2 (pasted_alone (template st) crop mask_file_of
                     (vote_mask threshold_image optimalThreshold combined_label_dict)) names ws)"
  using assms
proof (induction names arbitrary: st)
  case Nil
  then show ?case by simp
next
  case (Cons structure_name rest)
  from Cons.prems obtain binary_struct where
    m: "vote_mask threshold_image optimalThreshold combined_label_dict structure_name
          binary_struct"
    and run: "vote_loop threshold_image optimalThreshold combined_label_dict mask_file_of crop
          rest (write_structure mask_file_of crop structure_name binary_struct st) = Inr st'"
    by (auto simp: vote_mask_def split: option.splits sum.splits)
  from Cons.IH [OF run] obtain ws where
    t: "template st' = template st"
    and ws: "written st' =
        (written st @ [(mask_file_of structure_name,
                        paste_img (template st) binary_struct crop)]) @ ws"
      "list_all2 (pasted_alone (template st) crop mask_file_of
                     (vote_mask threshold_image optimalThreshold combined_label_dict)) rest ws"
    by (auto simp: written_write_structure)
  have "pasted_alone (template st) crop mask_file_of
          (vote_mask threshold_image optimalThreshold combined_label_dict) structure_name
          (mask_file_of structure_name, paste_img (template st) binary_struct crop)"
    unfolding pasted_alone_def using m by auto
  with ws have "written st' = written st @
        (mask_file_of structure_name, paste_img (template st) binary_struct crop) # ws \<and>
      list_all2 (pasted_alone (template st) crop mask_file_of
                     (vote_mask threshold_image optimalThreshold combined_label_dict))
        (structure_name # rest)
        ((mask_file_of structure_name, paste_img (template st) binary_struct crop) # ws)"
    by simp
  with t show ?case by blast
qed

lemma vessel_loop_Inr:
  assumes "vessel_loop segmented_vessel_dict mask_file_of crop names st = Inr st'"
  shows "template st' = template st \<and>
     (\<exists>ws. written st' = written st @ ws \<and>
        list_all2 (pasted_alone (template st) crop mask_file_of
                     (\<lambda>name binary_struct. map_of segmented_vessel_dict name = Some binary_struct))
          names ws)"
  using assms
proof (induction names arbitrary: st)
  case Nil
  then show ?case by simp
next
  case (Cons structure_name rest)
  from Cons.prems obtain binary_struct where
    m: "map_of segmented_vessel_dict structure_name = Some binary_struct"
    and run: "vessel_loop segmented_vessel_dict mask_file_of crop rest
          (write_structure mask_file_of crop structure_name binary_struct st) = Inr st'"
    by (auto split: option.splits)
  from Cons.IH [OF run] obtain ws where
    t: "template st' = template st"
    and ws: "written st' =
        (written st @ [(mask_file_of structure_name,
                        paste_img (template st) binary_struct crop)]) @ ws"
      "list_all2 (pasted_alone (template st) crop mask_file_of
                     (\<lambda>name binary_struct. map_of segmented_vessel_dict name = Some binary_struct))
         rest ws"
    by (auto simp: written_write_structure)
  have "pasted_alone (template st) crop mask_file_of
          (\<lambda>name binary_struct. map_of segmented_vessel_dict name = Some binary_struct)
          structure_name
          (mask_file_of structure_name, paste_img (template st) binary_struct crop)"
    unfolding pasted_alone_def using m by auto
  with ws have "written st' = written st @
        (mask_file_of structure_name, paste_img (template st) binary_struct crop) # ws \<and>
      list_all2 (pasted_alone (template st) crop mask_file_of
                     (\<lambda>name binary_struct. map_of segmented_vessel_dict name = Some binary_struct))
        (structure_name # rest)
        ((mask_file_of structure_name, paste_img (template st) binary_struct crop) # ws)"
    by simp
  with t show ?case by blast
qed

text \<open>
  Claim C10. When step 6 completes for a target, the variable \<open>template_im\<close> still
  holds the template of line 342, and the volumes handed to \<open>sitk.WriteImage\<close> are, in
  order, one per vote structure and then one per vessel structure: each has the file
  name of its structure and is that zero template with the mask of that structure
  alone pasted in at the crop origin, whatever was pasted and written before it.
\<close>

theorem step6_writes_independent:
  assumes "step6 threshold_image optimalThreshold combined_label_dict segmented_vessel_dict
             vessel_name_list mask_file_of crop img objects = Inr st"
  shows "template st = template_im img \<and>
     (\<exists>votes vessels. written st = votes @ vessels \<and>
        list_all2 (pasted_alone (template_im img) crop mask_file_of
                     (vote_mask threshold_image optimalThreshold combined_label_dict))
          (map fst optimalThreshold) votes \<and>
        list_all2 (pasted_alone (template_im img) crop mask_file_of
                     (\<lambda>name binary_struct. map_of segmented_vessel_dict name = Some binary_struct))
          vessel_name_list vessels)"
proof -
  from assms obtain st1 where
    v: "vote_loop threshold_image optimalThreshold combined_label_dict mask_file_of crop
          (map fst optimalThreshold)
          \<lparr>template = template_im img, written = [], output_objects = objects\<rparr> = Inr st1"
    and w: "vessel_loop segmented_vessel_dict mask_file_of crop vessel_name_list st1 = Inr st"
    unfolding step6_def by (auto split: sum.splits)
  from vote_loop_Inr [OF v] obtain votes where
    t1: "template st1 = template_im img" and votes: "written st1 = votes"
      "list_all2 (pasted_alone (template_im img) crop mask_file_of
                     (vote_mask threshold_image optimalThreshold combined_label_dict))
          (map fst optimalThreshold) votes"
    by auto
  from vessel_loop_Inr [OF w] obtain vessels where
    t2: "template st = template st1" and vessels: "written st = written st1 @ vessels"
      "list_all2 (pasted_alone (template st1) crop mask_file_of
                     (\<lambda>name binary_struct. map_of segmented_vessel_dict name = Some binary_struct))
          vessel_name_list vessels"
    by auto
  from t1 t2 votes vessels show ?thesis by auto
qed

lemma example_step6_run: "example_step6 = Inr example_step6_result"
  by (simp add: example_step6_def example_step6_result_def step6_def write_structure_def
      paste_img_def Paste_def paste_voxels_def paste_line_def slice_voxels_def slice_line_def
      template_im_def Cast_UInt8_def map_image_def process_probability_image_def
      example_img_def example_vessel_def Let_def upt_rec)

theorem step6_writes_independent_witness:
  "step6 (\<lambda>p t. Inr (process_probability_image p t)) [(''WHOLEHEART'', 0.44)]
       [(''WHOLEHEART'', \<lparr>geometry = (), GetSize = (1, 1, 2), voxels = [[[0.5, 0.2]]]\<rparr>)]
       [(''LANTDESCARTERY'', example_vessel)] [''LANTDESCARTERY'']
       (\<lambda>name. ''Auto_'' @ name @ ''.nii.gz'') (1, 0, 0, 1, 1, 2) example_img []
     = Inr example_step6_result
   \<and> template example_step6_result = template_im example_img
   \<and> map fst (written example_step6_result)
       = [''Auto_WHOLEHEART.nii.gz'', ''Auto_LANTDESCARTERY.nii.gz'']
   \<and> (\<exists>votes vessels. written example_step6_result = votes @ vessels \<and>
        list_all2 (pasted_alone (template_im example_img) (1, 0, 0, 1, 1, 2)
                     (\<lambda>name. ''Auto_'' @ name @ ''.nii.gz'')
                     (vote_mask (\<lambda>p t. Inr (process_probability_image p t))
                        [(''WHOLEHEART'', 0.44)]
                        [(''WHOLEHEART'',
                          \<lparr>geometry = (), GetSize = (1, 1, 2), voxels = [[[0.5, 0.2]]]\<rparr>)]))
          [''WHOLEHEART''] votes \<and>
        list_all2 (pasted_alone (template_im example_img) (1, 0, 0, 1, 1, 2)
                     (\<lambda>name. ''Auto_'' @ name @ ''.nii.gz'')
                     (\<lambda>name binary_struct.
                        map_of [(''LANTDESCARTERY'', example_vessel)] name = Some binary_struct))
          [''LANTDESCARTERY''] vessels)"
proof -
  have run: "step6 (\<lambda>p t. Inr (process_probability_image p t)) [(''WHOLEHEART'', 0.44)]
       [(''WHOLEHEART'', \<lparr>geometry = (), GetSize = (1, 1, 2), voxels = [[[0.5, 0.2]]]\<rparr>)]
       [(''LANTDESCARTERY'', example_vessel)] [''LANTDESCARTERY'']
       (\<lambda>name. ''Auto_'' @ name @ ''.nii.gz'') (1, 0, 0, 1, 1, 2) example_img []
     = Inr example_step6_result"
    using example_step6_run by (simp add: example_step6_def)
  have names: "map fst (written example_step6_result)
       = [''Auto_WHOLEHEART.nii.gz'', ''Auto_LANTDESCARTERY.nii.gz'']"
    by (simp add: example_step6_result_def)
  from step6_writes_independent [OF run] run names show ?thesis by simp
qed

end
